theory Spec2Isabelle
  imports Main "HOL-Library.Word" "HOL-Library.Multiset"
begin

section \<open>An RDAP client: bootstrap registry, client and command-line handler\<close>

text \<open>
  The development embeds three parts of the repository:
  \<^item> the bootstrap registry types with the URL sort run while a service is decoded
    (\<^verbatim>\<open>ServiceRegistry\<close>, \<^verbatim>\<open>Service\<close>, \<^verbatim>\<open>Values\<close>: the second file of
    \<^verbatim>\<open>handler/handler.go\<close>);
  \<^item> the client (\<^verbatim>\<open>Client.query\<close>, \<^verbatim>\<open>Client.fetchAndUnmarshal\<close> and the public
    queries: the second file of \<^verbatim>\<open>client/client.go\<close>, the one with the \<^verbatim>\<open>Host\<close>
    override);
  \<^item> the handler that sniffs the kind of an object (\<^verbatim>\<open>Handler.Query\<close> and the five kind
    handlers: the first file of \<^verbatim>\<open>handler/handler.go\<close>).
  Go's standard library and the packages the sources import but do not contain (the
  HTTP exchange, the JSON decoder, the bootstrap matchers, the output templates) are
  parameters of the model, gathered in records; every effect is an event appended to a log.
\<close>

subsection \<open>Errors and panics\<close>

text \<open>
  A Go \<^verbatim>\<open>error\<close> is a value; \<^verbatim>\<open>nil\<close> is \<open>None\<close> of \<open>error option\<close>. The
  constructors name where an error value is made: \<open>Errorf\<close> is \<^verbatim>\<open>fmt.Errorf\<close> called by
  the code of this repository, the others come out of the parameters.
\<close>

datatype error =
    Errorf string
  | URLError string
  | TransportError string
  | JSONError string
  | MatchError string
  | OutputError string

text \<open>A failed type assertion \<^verbatim>\<open>identifier.(string)\<close> panics: it is no error value.\<close>

datatype 'a go = Return 'a | Panic

subsection \<open>The bootstrap registry and its URL sort\<close>

type_synonym Values = "string list"

text \<open>\<^verbatim>\<open>type Service [2]Values\<close>: the entries, then the URIs.\<close>

type_synonym Service = "Values \<times> Values"

record ServiceRegistry =
  Version :: string
  Publication :: string
  Description :: string
  Services :: "Service list"

definition Service_Entries :: "Service \<Rightarrow> string list" where
  "Service_Entries s = fst s"

definition Service_URIs :: "Service \<Rightarrow> string list" where
  "Service_URIs s = snd s"

text \<open>
  \<^verbatim>\<open>strings.Split(s, sep)\<close> for a separator of one character: the pieces of \<open>s\<close>
  between the occurrences of \<open>sep\<close>; one empty piece for the empty string.
\<close>

fun Split :: "string \<Rightarrow> char \<Rightarrow> string list" where
  "Split [] sep = [[]]"
| "Split (c # cs) sep =
     (if c = sep then [] # Split cs sep
      else (case Split cs sep of [] \<Rightarrow> [[c]] | w # ws \<Rightarrow> (c # w) # ws))"

definition Values_Len :: "Values \<Rightarrow> nat" where
  "Values_Len v = length v"

text \<open>\<^verbatim>\<open>v[i], v[j] = v[j], v[i]\<close>; the sort only calls it within range.\<close>

definition Values_Swap :: "Values \<Rightarrow> nat \<Rightarrow> nat \<Rightarrow> Values" where
  "Values_Swap v i j = v[i := v ! j, j := v ! i]"

text \<open>
  \<^verbatim>\<open>return strings.Split(v[i], ":")[0] == "https"\<close>: the element at \<open>j\<close> is not read.
  \<open>Split\<close> never returns the empty list (\<open>Split_not_Nil\<close> below), so \<open>hd\<close> is its
  element 0.
\<close>

definition Values_Less :: "Values \<Rightarrow> nat \<Rightarrow> nat \<Rightarrow> bool" where
  "Values_Less v i j = (hd (Split (v ! i) CHR '':'') = ''https'')"

text \<open>
  \<^verbatim>\<open>sort.Sort\<close> of Go's standard library. On a slice of at most six elements every
  release runs nothing but its insertion sort
  \<^verbatim>\<open>
  func insertionSort(data Interface, a, b int) {
      for i := a + 1; i < b; i++ {
          for j := i; j > a && data.Less(j, j-1); j-- {
              data.Swap(j, j-1)
          }
      }
  }
  \<close>
  (the releases differ above that: quicksort above 7 elements before Go 1.6, a Shell pass
  with gap 6 from 7 to 12 elements up to Go 1.18, pattern-defeating quicksort above 12
  since). The two loops are the two functions below; what the library does to a longer
  slice is the parameter \<open>sort_long\<close>.
\<close>

function insertionSort_inner :: "Values \<Rightarrow> nat \<Rightarrow> nat \<Rightarrow> Values" where
  "insertionSort_inner v a j =
     (if j > a \<and> Values_Less v j (j - 1)
      then insertionSort_inner (Values_Swap v j (j - 1)) a (j - 1)
      else v)"
  by pat_completeness auto
termination
  by (relation "measure (\<lambda>(v, a, j). j)") auto

function insertionSort_outer :: "Values \<Rightarrow> nat \<Rightarrow> nat \<Rightarrow> nat \<Rightarrow> Values" where
  "insertionSort_outer v a b i =
     (if i < b then insertionSort_outer (insertionSort_inner v a i) a b (i + 1) else v)"
  by pat_completeness auto
termination
  by (relation "measure (\<lambda>(v, a, b, i). b - i)") auto

definition insertionSort :: "Values \<Rightarrow> nat \<Rightarrow> nat \<Rightarrow> Values" where
  "insertionSort v a b = insertionSort_outer v a b (a + 1)"

definition sort_Sort :: "(Values \<Rightarrow> Values) \<Rightarrow> Values \<Rightarrow> Values" where
  "sort_Sort sort_long v =
     (if Values_Len v \<le> 6 then insertionSort v 0 (Values_Len v) else sort_long v)"

text \<open>
  \<^verbatim>\<open>Service.UnmarshalJSON\<close>. \<open>json_Unmarshal\<close> is \<^verbatim>\<open>json.Unmarshal(b, &sv)\<close> into a
  fresh \<^verbatim>\<open>[2]Values\<close>; on its error the receiver \<open>s\<close> is left as it was.
\<close>

definition Service_UnmarshalJSON ::
  "(string \<Rightarrow> error + Service) \<Rightarrow> (Values \<Rightarrow> Values) \<Rightarrow> string \<Rightarrow> Service \<Rightarrow> error option \<times> Service"
where
  "Service_UnmarshalJSON json_Unmarshal sort_long b s =
     (case json_Unmarshal b of
        Inl err \<Rightarrow> (Some err, s)
      | Inr sv \<Rightarrow> (None, (fst sv, sort_Sort sort_long (snd sv))))"

text \<open>The scheme test of \<open>Values_Less\<close> on one URL, to state what the sort achieves.\<close>

definition is_https :: "string \<Rightarrow> bool" where
  "is_https u = (hd (Split u CHR '':'') = ''https'')"

subsection \<open>The client\<close>

text \<open>\<^verbatim>\<open>type kind string\<close> with its four constants; \<open>kind_string\<close> is the string each one is.\<close>

datatype kind = dns | asn | ipv4 | ipv6

definition kind_string :: "kind \<Rightarrow> string" where
  "kind_string k = (case k of dns \<Rightarrow> ''dns'' | asn \<Rightarrow> ''asn'' | ipv4 \<Rightarrow> ''ipv4'' | ipv6 \<Rightarrow> ''ipv6'')"

definition kindToSegment :: "kind \<rightharpoonup> string" where
  "kindToSegment = [dns \<mapsto> ''domain'', asn \<mapsto> ''autnum'', ipv4 \<mapsto> ''ip'', ipv6 \<mapsto> ''ip'']"

definition RDAPBootstrap :: string where
  "RDAPBootstrap = ''https://data.iana.org/rdap/%s.json''"

record Client =
  cacheDir :: string
  Bootstrap :: string
  Host :: string

definition NewClient :: "string \<Rightarrow> Client" where
  "NewClient dir = \<lparr>cacheDir = dir, Bootstrap = RDAPBootstrap, Host = []\<rparr>"

text \<open>
  \<^verbatim>\<open>net.IPNet\<close>: an address and a mask, each a slice of bytes. The pointer a caller
  passes is taken to point at a value (on \<^verbatim>\<open>nil\<close> \<^verbatim>\<open>QueryIPNetwork\<close> panics reading
  \<^verbatim>\<open>ipnet.IP\<close>).
\<close>

record IPNet =
  IP :: "8 word list"
  Mask :: "8 word list"

text \<open>
  \<^verbatim>\<open>net.IP.To4\<close> of the standard library: a 4-byte address as it is, the last four
  bytes of a 16-byte IPv4-mapped address (ten zero bytes, then \<^verbatim>\<open>0xff 0xff\<close>), else
  \<^verbatim>\<open>nil\<close>.
\<close>

definition To4 :: "8 word list \<Rightarrow> 8 word list option" where
  "To4 ip =
     (if length ip = 4 then Some ip
      else if length ip = 16 \<and> list_all (\<lambda>b. b = 0) (take 10 ip) \<and> ip ! 10 = 255 \<and> ip ! 11 = 255
      then Some (drop 12 ip)
      else None)"

text \<open>
  \<^verbatim>\<open>identifier interface{}\<close> holds a \<^verbatim>\<open>string\<close>, a \<^verbatim>\<open>uint64\<close> or a
  \<^verbatim>\<open>*net.IPNet\<close>.
\<close>

datatype ident = IdString string | IdUint64 "64 word" | IdIPNet IPNet

text \<open>
  What the client does to the world: an HTTP request handed to \<^verbatim>\<open>cli.Do\<close>, and a call
  of a bootstrap matcher.
\<close>

datatype event = Request string | Match ident

record response =
  StatusCode :: nat
  ContentType :: string
  Body :: string

text \<open>
  The parameters of the client model.
  \<^item> \<open>NewRequest\<close>: \<^verbatim>\<open>http.NewRequest("GET", uri, nil)\<close>, which fails on a URL it cannot
    parse.
  \<^item> \<open>Do\<close>: \<^verbatim>\<open>cli.Do(req)\<close> through the caching transport on the cache directory; the
    answer may depend on everything done before.
  \<^item> \<open>Sprintf_kind\<close>: \<^verbatim>\<open>fmt.Sprintf(c.Bootstrap, kind)\<close> on the caller's template.
  \<^item> \<open>IPNet_String\<close>: \<^verbatim>\<open>(*net.IPNet).String\<close>, which \<^verbatim>\<open>%v\<close> prints.
  \<^item> \<open>sort_long\<close>: \<^verbatim>\<open>sort.Sort\<close> on more than six URLs.
  \<^item> \<open>Decode_registry\<close>, \<open>Decode_object\<close>: \<^verbatim>\<open>json.NewDecoder(resp.Body).Decode\<close> into a
    registry and into the caller's object: the error and the target as the decoder leaves it.
  \<^item> \<open>MatchDomain\<close>, \<open>MatchAS\<close>, \<open>MatchIPNetwork\<close>: the matchers of package
    \<^verbatim>\<open>bootstrap\<close>.
  \<^item> \<open>New_object\<close>: the empty response a public query allocates
    (\<^verbatim>\<open>&protocol.DomainResponse{}\<close> and the like).
\<close>

record 'obj runtime =
  NewRequest :: "string \<Rightarrow> error option"
  Do :: "string \<Rightarrow> event list \<Rightarrow> string \<Rightarrow> error + response"
  Sprintf_kind :: "string \<Rightarrow> kind \<Rightarrow> string"
  IPNet_String :: "IPNet \<Rightarrow> string"
  sort_long :: "Values \<Rightarrow> Values"
  Decode_registry :: "string \<Rightarrow> ServiceRegistry \<Rightarrow> error option \<times> ServiceRegistry"
  Decode_object :: "string \<Rightarrow> 'obj \<Rightarrow> error option \<times> 'obj"
  MatchDomain :: "ServiceRegistry \<Rightarrow> string \<Rightarrow> error + Values"
  MatchAS :: "ServiceRegistry \<Rightarrow> 64 word \<Rightarrow> error + Values"
  MatchIPNetwork :: "ServiceRegistry \<Rightarrow> IPNet \<Rightarrow> error + Values"
  New_object :: "'obj"

text \<open>\<^verbatim>\<open>%v\<close> of an unsigned integer: its decimal digits.\<close>

function FormatUint :: "nat \<Rightarrow> string" where
  "FormatUint n =
     (if n < 10 then [''0123456789'' ! n]
      else FormatUint (n div 10) @ [''0123456789'' ! (n mod 10)])"
  by pat_completeness auto
termination
  by (relation "measure (\<lambda>n. n)") auto

text \<open>\<^verbatim>\<open>%v\<close> of the identifier.\<close>

definition fmt_v :: "'obj runtime \<Rightarrow> ident \<Rightarrow> string" where
  "fmt_v rt identifier =
     (case identifier of
        IdString s \<Rightarrow> s
      | IdUint64 n \<Rightarrow> FormatUint (unat n)
      | IdIPNet n \<Rightarrow> IPNet_String rt n)"

text \<open>
  \<^verbatim>\<open>Client.fetchAndUnmarshal\<close>. The target \<open>object\<close> is what the pointer in the
  \<^verbatim>\<open>interface{}\<close> points at; \<open>decode\<close> is the decoder for its type. No request is
  logged when the request cannot be built.
\<close>

definition Client_fetchAndUnmarshal ::
  "'obj runtime \<Rightarrow> Client \<Rightarrow> (string \<Rightarrow> 'a \<Rightarrow> error option \<times> 'a) \<Rightarrow> string \<Rightarrow> 'a \<Rightarrow> event list
     \<Rightarrow> error option \<times> 'a \<times> event list"
where
  "Client_fetchAndUnmarshal rt c decode uri object log =
     (case NewRequest rt uri of
        Some err \<Rightarrow> (Some err, object, log)
      | None \<Rightarrow>
          (case Do rt (cacheDir c) log uri of
             Inl err \<Rightarrow> (Some err, object, log @ [Request uri])
           | Inr resp \<Rightarrow>
               (case decode (Body resp) object of
                  (Some err, object') \<Rightarrow> (Some err, object', log @ [Request uri])
                | (None, object') \<Rightarrow> (None, object', log @ [Request uri]))))"

text \<open>The \<^verbatim>\<open>switch kind\<close> of \<^verbatim>\<open>Client.query\<close> with its type assertions.\<close>

definition query_match ::
  "'obj runtime \<Rightarrow> kind \<Rightarrow> ServiceRegistry \<Rightarrow> ident \<Rightarrow> (error + Values) go"
where
  "query_match rt k r identifier =
     (case k of
        dns \<Rightarrow> (case identifier of IdString s \<Rightarrow> Return (MatchDomain rt r s) | _ \<Rightarrow> Panic)
      | asn \<Rightarrow> (case identifier of IdUint64 n \<Rightarrow> Return (MatchAS rt r n) | _ \<Rightarrow> Panic)
      | ipv4 \<Rightarrow> (case identifier of IdIPNet n \<Rightarrow> Return (MatchIPNetwork rt r n) | _ \<Rightarrow> Panic)
      | ipv6 \<Rightarrow> (case identifier of IdIPNet n \<Rightarrow> Return (MatchIPNetwork rt r n) | _ \<Rightarrow> Panic))"

text \<open>
  The candidate loop of \<^verbatim>\<open>Client.query\<close> with the \<^verbatim>\<open>return\<close> that follows it:
  \<^verbatim>\<open>continue\<close> on an error, \<^verbatim>\<open>return nil\<close> on the first fetch without one.
\<close>

fun query_loop ::
  "'obj runtime \<Rightarrow> Client \<Rightarrow> string \<Rightarrow> ident \<Rightarrow> string list \<Rightarrow> 'obj \<Rightarrow> event list
     \<Rightarrow> error option \<times> 'obj \<times> event list"
where
  "query_loop rt c segment identifier [] object log =
     (Some (Errorf (''no data available for '' @ fmt_v rt identifier)), object, log)"
| "query_loop rt c segment identifier (uri # uris) object log =
     (case Client_fetchAndUnmarshal rt c (Decode_object rt)
             (uri @ ''/'' @ segment @ ''/'' @ fmt_v rt identifier) object log of
        (Some err, object', log') \<Rightarrow> query_loop rt c segment identifier uris object' log'
      | (None, object', log') \<Rightarrow> (None, object', log'))"

text \<open>
  The part of \<^verbatim>\<open>Client.query\<close> after the \<^verbatim>\<open>if c.Host == ""\<close>: the sort, the segment
  (a key missing from a Go map reads as the empty string) and the loop.
\<close>

definition query_candidates ::
  "'obj runtime \<Rightarrow> Client \<Rightarrow> kind \<Rightarrow> ident \<Rightarrow> string list \<Rightarrow> 'obj \<Rightarrow> event list
     \<Rightarrow> error option go \<times> 'obj \<times> event list"
where
  "query_candidates rt c k identifier uris object log =
     (let uris' = sort_Sort (sort_long rt) uris;
          segment = (case kindToSegment k of Some s \<Rightarrow> s | None \<Rightarrow> [])
      in case query_loop rt c segment identifier uris' object log of
           (err, object', log') \<Rightarrow> (Return err, object', log'))"

definition empty_registry :: ServiceRegistry where
  "empty_registry = \<lparr>Version = [], Publication = [], Description = [], Services = []\<rparr>"

text \<open>\<^verbatim>\<open>Client.query\<close>.\<close>

definition Client_query ::
  "'obj runtime \<Rightarrow> Client \<Rightarrow> kind \<Rightarrow> ident \<Rightarrow> 'obj \<Rightarrow> event list
     \<Rightarrow> error option go \<times> 'obj \<times> event list"
where
  "Client_query rt c k identifier object log =
     (if Host c = [] then
        (let bootstrapURI = Sprintf_kind rt (Bootstrap c) k in
         case Client_fetchAndUnmarshal rt c (Decode_registry rt) bootstrapURI empty_registry log of
           (Some err, r, log1) \<Rightarrow> (Return (Some err), object, log1)
         | (None, r, log1) \<Rightarrow>
             (case query_match rt k r identifier of
                Panic \<Rightarrow> (Panic, object, log1)
              | Return (Inl err) \<Rightarrow> (Return (Some err), object, log1 @ [Match identifier])
              | Return (Inr uris) \<Rightarrow>
                  if length uris = 0
                  then (Return (Some (Errorf (''no matches for '' @ fmt_v rt identifier))), object,
                        log1 @ [Match identifier])
                  else query_candidates rt c k identifier uris object (log1 @ [Match identifier])))
      else query_candidates rt c k identifier [Host c] object log)"

text \<open>The public queries: a fresh object, the kind, and \<^verbatim>\<open>nil\<close> for the object on an error.\<close>

definition query_result :: "error option go \<times> 'obj \<times> event list \<Rightarrow> (error + 'obj) go \<times> event list" where
  "query_result q =
     (case q of
        (Panic, r, log) \<Rightarrow> (Panic, log)
      | (Return (Some err), r, log) \<Rightarrow> (Return (Inl err), log)
      | (Return None, r, log) \<Rightarrow> (Return (Inr r), log))"


definition Client_QueryASN ::
  "'obj runtime \<Rightarrow> Client \<Rightarrow> 64 word \<Rightarrow> event list \<Rightarrow> (error + 'obj) go \<times> event list" where
  "Client_QueryASN rt c as log =
     query_result (Client_query rt c asn (IdUint64 as) (New_object rt) log)"

definition Client_QueryIPNetwork ::
  "'obj runtime \<Rightarrow> Client \<Rightarrow> IPNet \<Rightarrow> event list \<Rightarrow> (error + 'obj) go \<times> event list" where
  "Client_QueryIPNetwork rt c ipnet log =
     (let k = (if To4 (IP ipnet) = None then ipv6 else ipv4)
      in query_result (Client_query rt c k (IdIPNet ipnet) (New_object rt) log))"

subsection \<open>The handler\<close>

text \<open>
  \<^verbatim>\<open>strconv.ParseUint(s, 10, bitSize)\<close> of the standard library: a non-empty string of
  decimal digits (no sign, no blank) whose value fits \<open>bitSize\<close> bits; any error is
  \<open>None\<close>, since \<^verbatim>\<open>Handler.ASN\<close> only tests it against \<^verbatim>\<open>nil\<close>.
\<close>

definition isdigit :: "char \<Rightarrow> bool" where
  "isdigit c = (c \<in> set ''0123456789'')"

definition ParseUint10 :: "string \<Rightarrow> nat \<Rightarrow> 64 word option" where
  "ParseUint10 s bitSize =
     (if s \<noteq> [] \<and> list_all isdigit s
      then (let n = foldl (\<lambda>acc c. 10 * acc + (of_char c - 48)) (0::nat) s
            in if n < 2 ^ bitSize then Some (word_of_nat n) else None)
      else None)"

text \<open>
  The regular expression \<^verbatim>\<open>isFQDN\<close>, as a term: \<open>Alnum\<close> is \<^verbatim>\<open>[[:alnum:]]\<close>,
  \<open>Repeat n r\<close> is \<^verbatim>\<open>r{0,n}\<close>, \<open>Opt r\<close> is \<^verbatim>\<open>(r)?\<close>. \<open>Eps\<close> and \<open>Fail\<close> (the empty
  string, and nothing) only arise while matching. \<open>MatchString\<close> matches the whole string
  (the expression is anchored by \<^verbatim>\<open>^\<close> and \<^verbatim>\<open>$\<close>) by derivatives.
\<close>

datatype regexp =
    Eps
  | Fail
  | Alnum
  | Lit char
  | Alt regexp regexp
  | Cat regexp regexp
  | Star regexp
  | Opt regexp
  | Repeat nat regexp

definition isalnum :: "char \<Rightarrow> bool" where
  "isalnum c =
     (c \<in> set ''abcdefghijklmnopqrstuvwxyz'' \<or> c \<in> set ''ABCDEFGHIJKLMNOPQRSTUVWXYZ''
      \<or> c \<in> set ''0123456789'')"

fun nullable :: "regexp \<Rightarrow> bool" where
  "nullable Eps = True"
| "nullable Fail = False"
| "nullable Alnum = False"
| "nullable (Lit c) = False"
| "nullable (Alt r s) = (nullable r \<or> nullable s)"
| "nullable (Cat r s) = (nullable r \<and> nullable s)"
| "nullable (Star r) = True"
| "nullable (Opt r) = True"
| "nullable (Repeat n r) = True"

fun alt :: "regexp \<Rightarrow> regexp \<Rightarrow> regexp" where
  "alt Fail s = s"
| "alt r Fail = r"
| "alt r s = Alt r s"

fun cat :: "regexp \<Rightarrow> regexp \<Rightarrow> regexp" where
  "cat Fail s = Fail"
| "cat Eps s = s"
| "cat r s = Cat r s"

fun deriv :: "char \<Rightarrow> regexp \<Rightarrow> regexp" where
  "deriv c Eps = Fail"
| "deriv c Fail = Fail"
| "deriv c Alnum = (if isalnum c then Eps else Fail)"
| "deriv c (Lit d) = (if c = d then Eps else Fail)"
| "deriv c (Alt r s) = alt (deriv c r) (deriv c s)"
| "deriv c (Cat r s) =
     (if nullable r then alt (cat (deriv c r) s) (deriv c s) else cat (deriv c r) s)"
| "deriv c (Star r) = cat (deriv c r) (Star r)"
| "deriv c (Opt r) = deriv c r"
| "deriv c (Repeat 0 r) = Fail"
| "deriv c (Repeat (Suc n) r) = cat (deriv c r) (Repeat n r)"

definition MatchString :: "regexp \<Rightarrow> string \<Rightarrow> bool" where
  "MatchString r s = nullable (foldl (\<lambda>r c. deriv c r) r s)"

text \<open>
  \<^verbatim>\<open>^(([[:alnum:]](([[:alnum:]]|\-){0,61}[[:alnum:]])?\.)*[[:alnum:]](([[:alnum:]]|\-){0,61}[[:alnum:]])?)?(\.)?$\<close>
\<close>

definition label :: regexp where
  "label = Cat Alnum (Opt (Cat (Repeat 61 (Alt Alnum (Lit CHR ''-''))) Alnum))"

definition isFQDN :: regexp where
  "isFQDN = Cat (Opt (Cat (Star (Cat label (Lit CHR ''.''))) label)) (Opt (Lit CHR ''.''))"

text \<open>What a handler asks about, with the value it parsed from the object.\<close>

datatype target =
    TargetASN "64 word"
  | TargetIP "8 word list"
  | TargetIPNetwork IPNet
  | TargetDomain string
  | TargetEntity string

text \<open>
  What the handler does to the world: a lookup through the bootstrap client, a query
  through an RDAP client on a list of URIs (both go to the network), and the text written.
\<close>

datatype hevent = BootstrapLookup target | ClientQuery "string list" target | ToText target

text \<open>
  Package \<^verbatim>\<open>bootstrap\<close> is not among the sources: the four methods of its client that
  the handler calls are parameters. Each is given what was done before.
\<close>

record bootstrap_Client =
  bootstrap_ASN :: "hevent list \<Rightarrow> 64 word \<Rightarrow> error + string list"
  bootstrap_IP :: "hevent list \<Rightarrow> 8 word list \<Rightarrow> error + string list"
  bootstrap_IPNetwork :: "hevent list \<Rightarrow> IPNet \<Rightarrow> error + string list"
  bootstrap_Domain :: "hevent list \<Rightarrow> string \<Rightarrow> error + string list"

text \<open>
  \<^verbatim>\<open>Handler\<close>: the URIs and the bootstrap client, \<^verbatim>\<open>nil\<close> or not. Its HTTP client and
  its writer are handles that only the parameters below use.
\<close>

record Handler =
  URIs :: "string list"
  BootstrapClient :: "bootstrap_Client option"

text \<open>
  The rest of what the handler calls: \<^verbatim>\<open>net.ParseIP\<close>, \<^verbatim>\<open>net.ParseCIDR\<close> (its
  network; \<open>None\<close> on an error), the five queries of \<^verbatim>\<open>client.NewClient(uris,
  h.HTTPClient)\<close> (the domain query may answer \<^verbatim>\<open>nil\<close> without an error), and
  \<^verbatim>\<open>ToText(h.Writer)\<close> of the four output types.
\<close>

record 'obj world =
  ParseIP :: "string \<Rightarrow> 8 word list option"
  ParseCIDR :: "string \<Rightarrow> IPNet option"
  client_ASN :: "hevent list \<Rightarrow> string list \<Rightarrow> 64 word \<Rightarrow> error + 'obj"
  client_Entity :: "hevent list \<Rightarrow> string list \<Rightarrow> string \<Rightarrow> error + 'obj"
  client_IPNetwork :: "hevent list \<Rightarrow> string list \<Rightarrow> IPNet \<Rightarrow> error + 'obj"
  client_IP :: "hevent list \<Rightarrow> string list \<Rightarrow> 8 word list \<Rightarrow> error + 'obj"
  client_Domain :: "hevent list \<Rightarrow> string list \<Rightarrow> string \<Rightarrow> error + 'obj option"
  ToText_AS :: "'obj \<Rightarrow> error option"
  ToText_Entity :: "'obj \<Rightarrow> error option"
  ToText_IPNetwork :: "'obj \<Rightarrow> error option"
  ToText_Domain :: "'obj \<Rightarrow> error option"

text \<open>
  \<^verbatim>\<open>uris := h.URIs; if h.Bootstrap != nil { uris, err = h.Bootstrap.X(v) ... }\<close>, the
  block four handlers share: the URIs or the error of the lookup \<open>X\<close>.
\<close>

definition bootstrap_uris ::
  "Handler \<Rightarrow> (bootstrap_Client \<Rightarrow> hevent list \<Rightarrow> error + string list) \<Rightarrow> target \<Rightarrow> hevent list
     \<Rightarrow> (error + string list) \<times> hevent list"
where
  "bootstrap_uris h X t log =
     (case BootstrapClient h of
        None \<Rightarrow> (Inr (URIs h), log)
      | Some b \<Rightarrow> (X b log, log @ [BootstrapLookup t]))"

text \<open>
  The five kind handlers. Each returns \<^verbatim>\<open>(bool, error)\<close>; after \<^verbatim>\<open>ToText\<close> both
  returns are \<^verbatim>\<open>true\<close> with the error \<^verbatim>\<open>ToText\<close> gave.
\<close>

definition Handler_ASN ::
  "'obj world \<Rightarrow> Handler \<Rightarrow> string \<Rightarrow> hevent list \<Rightarrow> (bool \<times> error option) \<times> hevent list"
where
  "Handler_ASN w h object log =
     (case ParseUint10 object 32 of
        None \<Rightarrow> ((False, None), log)
      | Some n \<Rightarrow>
          (case bootstrap_uris h (\<lambda>b l. bootstrap_ASN b l n) (TargetASN n) log of
             (Inl err, log1) \<Rightarrow> ((True, Some err), log1)
           | (Inr uris, log1) \<Rightarrow>
               (case client_ASN w log1 uris n of
                  Inl err \<Rightarrow> ((True, Some err), log1 @ [ClientQuery uris (TargetASN n)])
                | Inr r \<Rightarrow>
                    ((True, ToText_AS w r),
                     log1 @ [ClientQuery uris (TargetASN n), ToText (TargetASN n)]))))"

definition Handler_Entity ::
  "'obj world \<Rightarrow> Handler \<Rightarrow> string \<Rightarrow> hevent list \<Rightarrow> (bool \<times> error option) \<times> hevent list"
where
  "Handler_Entity w h object log =
     (case client_Entity w log (URIs h) object of
        Inl err \<Rightarrow> ((True, Some err), log @ [ClientQuery (URIs h) (TargetEntity object)])
      | Inr r \<Rightarrow>
          ((True, ToText_Entity w r),
           log @ [ClientQuery (URIs h) (TargetEntity object), ToText (TargetEntity object)]))"

definition Handler_IPNetwork ::
  "'obj world \<Rightarrow> Handler \<Rightarrow> string \<Rightarrow> hevent list \<Rightarrow> (bool \<times> error option) \<times> hevent list"
where
  "Handler_IPNetwork w h object log =
     (case ParseCIDR w object of
        None \<Rightarrow> ((False, None), log)
      | Some cidr \<Rightarrow>
          (case bootstrap_uris h (\<lambda>b l. bootstrap_IPNetwork b l cidr) (TargetIPNetwork cidr) log of
             (Inl err, log1) \<Rightarrow> ((True, Some err), log1)
           | (Inr uris, log1) \<Rightarrow>
               (case client_IPNetwork w log1 uris cidr of
                  Inl err \<Rightarrow> ((True, Some err), log1 @ [ClientQuery uris (TargetIPNetwork cidr)])
                | Inr r \<Rightarrow>
                    ((True, ToText_IPNetwork w r),
                     log1 @ [ClientQuery uris (TargetIPNetwork cidr), ToText (TargetIPNetwork cidr)]))))"

definition Handler_IP ::
  "'obj world \<Rightarrow> Handler \<Rightarrow> string \<Rightarrow> hevent list \<Rightarrow> (bool \<times> error option) \<times> hevent list"
where
  "Handler_IP w h object log =
     (case ParseIP w object of
        None \<Rightarrow> ((False, None), log)
      | Some ip \<Rightarrow>
          (case bootstrap_uris h (\<lambda>b l. bootstrap_IP b l ip) (TargetIP ip) log of
             (Inl err, log1) \<Rightarrow> ((True, Some err), log1)
           | (Inr uris, log1) \<Rightarrow>
               (case client_IP w log1 uris ip of
                  Inl err \<Rightarrow> ((True, Some err), log1 @ [ClientQuery uris (TargetIP ip)])
                | Inr r \<Rightarrow>
                    ((True, ToText_IPNetwork w r),
                     log1 @ [ClientQuery uris (TargetIP ip), ToText (TargetIP ip)]))))"

definition Handler_Domain ::
  "'obj world \<Rightarrow> Handler \<Rightarrow> string \<Rightarrow> hevent list \<Rightarrow> (bool \<times> error option) \<times> hevent list"
where
  "Handler_Domain w h object log =
     (if \<not> MatchString isFQDN object then ((False, None), log)
      else
        (case bootstrap_uris h (\<lambda>b l. bootstrap_Domain b l object) (TargetDomain object) log of
           (Inl err, log1) \<Rightarrow> ((True, Some err), log1)
         | (Inr uris, log1) \<Rightarrow>
             (case client_Domain w log1 uris object of
                Inl err \<Rightarrow> ((True, Some err), log1 @ [ClientQuery uris (TargetDomain object)])
              | Inr None \<Rightarrow> ((True, None), log1 @ [ClientQuery uris (TargetDomain object)])
              | Inr (Some r) \<Rightarrow>
                  ((True, ToText_Domain w r),
                   log1 @ [ClientQuery uris (TargetDomain object), ToText (TargetDomain object)]))))"

text \<open>
  The loop of \<^verbatim>\<open>Handler.Query\<close> over its handlers, with the \<^verbatim>\<open>return ok, nil\<close> after
  it: an error returns at once, \<^verbatim>\<open>ok\<close> breaks.
\<close>

fun Query_loop ::
  "(string \<Rightarrow> hevent list \<Rightarrow> (bool \<times> error option) \<times> hevent list) list \<Rightarrow> string \<Rightarrow> bool
     \<Rightarrow> hevent list \<Rightarrow> (bool \<times> error option) \<times> hevent list"
where
  "Query_loop [] object ok log = ((ok, None), log)"
| "Query_loop (handler # handlers) object ok log =
     (case handler object log of
        ((ok', Some err), log') \<Rightarrow> ((ok', Some err), log')
      | ((ok', None), log') \<Rightarrow>
          if ok' then ((ok', None), log') else Query_loop handlers object ok' log')"

definition Handler_Query ::
  "'obj world \<Rightarrow> Handler \<Rightarrow> string \<Rightarrow> hevent list \<Rightarrow> (bool \<times> error option) \<times> hevent list"
where
  "Handler_Query w h object log =
     Query_loop
       [Handler_ASN w h, Handler_IP w h, Handler_IPNetwork w h, Handler_Domain w h,
        Handler_Entity w h]
       object False log"

text \<open>A handler claims the object when it returns \<^verbatim>\<open>true\<close> or an error.\<close>

definition claims :: "(bool \<times> error option) \<times> hevent list \<Rightarrow> bool" where
  "claims r = (fst (fst r) \<or> snd (fst r) \<noteq> None)"

subsection \<open>Notions the theorems are stated with\<close>

text \<open>The world \<open>rt\<close> with the status and the media type of every response overwritten.\<close>

definition restamp :: "nat \<Rightarrow> string \<Rightarrow> 'obj runtime \<Rightarrow> 'obj runtime" where
  "restamp code ctype rt =
     rt\<lparr>Do := \<lambda>dir log uri.
            (case Do rt dir log uri of
               Inl err \<Rightarrow> Inl err
             | Inr resp \<Rightarrow> Inr (resp\<lparr>StatusCode := code, ContentType := ctype\<rparr>))\<rparr>"

text \<open>What an event of the handler is about.\<close>

fun event_target :: "hevent \<Rightarrow> target" where
  "event_target (BootstrapLookup t) = t"
| "event_target (ClientQuery uris t) = t"
| "event_target (ToText t) = t"

subsection \<open>A small world to run the model in\<close>

text \<open>
  Concrete parameters for the closed theorems below. The decoded object is kept as the
  text it was decoded from; the one body that decodes is \<^verbatim>\<open>{}\<close>. Each function agrees
  with the library it stands for on the inputs the theorems use.
\<close>

text \<open>Service documents (their quotes left out) as \<^verbatim>\<open>json.Unmarshal\<close> reads them.\<close>

definition ex_json_Unmarshal :: "string \<Rightarrow> error + Service" where
  "ex_json_Unmarshal b =
     (if b = ''[[com],[https://a.example,https://b.example]]''
      then Inr ([''com''], [''https://a.example'', ''https://b.example''])
      else if b = ''[[net],[http://a.example,https://b.example,ftp://c.example,http://d.example,https://e.example]]''
      then Inr ([''net''],
                [''http://a.example'', ''https://b.example'', ''ftp://c.example'',
                 ''http://d.example'', ''https://e.example''])
      else Inl (JSONError ''unexpected end of JSON input''))"

text \<open>On longer slices: the insertion sort again, as Go 1.19 does up to twelve elements.\<close>

definition ex_sort_long :: "Values \<Rightarrow> Values" where
  "ex_sort_long v = insertionSort v 0 (Values_Len v)"

text \<open>A URL with a percent sign in it does not parse (\<^verbatim>\<open>abc%/domain/example.com\<close>).\<close>

definition ex_NewRequest :: "string \<Rightarrow> error option" where
  "ex_NewRequest uri =
     (if CHR ''%'' \<in> set uri then Some (URLError ''invalid URL escape'') else None)"

text \<open>The servers of the example.\<close>

definition ex_Do :: "string \<Rightarrow> event list \<Rightarrow> string \<Rightarrow> error + response" where
  "ex_Do dir log uri =
     (if uri = ''https://data.iana.org/rdap/dns.json''
      then Inr \<lparr>StatusCode = 200, ContentType = ''application/json'', Body = ''registry 1.0''\<rparr>
      else if uri = ''https://mirror.example/rdap/dns.json''
      then Inr \<lparr>StatusCode = 200, ContentType = ''application/json'', Body = ''registry 2.0''\<rparr>
      else if uri = ''https://test.example/rdap/dns.json''
      then Inr \<lparr>StatusCode = 200, ContentType = ''application/json'', Body = ''registry test''\<rparr>
      else if uri = ''http://a.example/domain/example.com''
      then Inr \<lparr>StatusCode = 200, ContentType = ''application/rdap+json'', Body = ''{}''\<rparr>
      else if uri = ''https://b.example/domain/example.com''
      then Inl (TransportError ''connection refused'')
      else if uri = ''https://rdap.beta.registro.br/domain/example.com''
      then Inr \<lparr>StatusCode = 404, ContentType = [], Body = []\<rparr>
      else if uri = ''https://rdap.example/domain/example.com''
      then Inr \<lparr>StatusCode = 404, ContentType = ''text/html'', Body = ''{}''\<rparr>
      else if uri = ''https://rdap.example/domain/example.net''
      then Inr \<lparr>StatusCode = 200, ContentType = ''text/html'', Body = ''{}''\<rparr>
      else if uri = ''https://rdap.example/domain/example.org''
      then Inr \<lparr>StatusCode = 400, ContentType = ''application/rdap+json'', Body = ''{{{''\<rparr>
      else if uri = ''https://rdap.example/ip/192.0.2.0/24''
      then Inr \<lparr>StatusCode = 200, ContentType = ''application/rdap+json'', Body = ''{}''\<rparr>
      else Inl (TransportError ''no such host''))"

text \<open>\<^verbatim>\<open>fmt.Sprintf\<close> on a template whose only verb is one \<^verbatim>\<open>%s\<close>.\<close>

fun ex_subst :: "string \<Rightarrow> string \<Rightarrow> string" where
  "ex_subst (c # d # cs) a =
     (if c = CHR ''%'' \<and> d = CHR ''s'' then a @ cs else c # ex_subst (d # cs) a)"
| "ex_subst cs a = cs"

definition ex_Sprintf_kind :: "string \<Rightarrow> kind \<Rightarrow> string" where
  "ex_Sprintf_kind template k = ex_subst template (kind_string k)"

definition ex_ipnet :: IPNet where
  "ex_ipnet = \<lparr>IP = [192, 0, 2, 0], Mask = [255, 255, 255, 0]\<rparr>"

definition ex_IPNet_String :: "IPNet \<Rightarrow> string" where
  "ex_IPNet_String n = (if n = ex_ipnet then ''192.0.2.0/24'' else ''<nil>'')"

definition ex_registry :: "string \<Rightarrow> ServiceRegistry" where
  "ex_registry v =
     \<lparr>Version = v, Publication = ''2015-04-17T16:00:00Z'', Description = ''a test registry'',
      Services = [([''com''], [''https://b.example'', ''http://a.example''])]\<rparr>"

text \<open>
  A registry whose service for \<^verbatim>\<open>com\<close> lists the two candidates of the test \<^emph>\<open>it should
  store the last error\<close> of \<^verbatim>\<open>transport_test.go\<close>.
\<close>

definition ex_registry_test :: ServiceRegistry where
  "ex_registry_test =
     \<lparr>Version = ''1.0'', Publication = ''2015-04-17T16:00:00Z'', Description = ''a test registry'',
      Services = [([''com''], [''abc%'', ''https://rdap.beta.registro.br''])]\<rparr>"

definition ex_Decode_registry :: "string \<Rightarrow> ServiceRegistry \<Rightarrow> error option \<times> ServiceRegistry" where
  "ex_Decode_registry body r =
     (if body = ''registry 1.0'' then (None, ex_registry ''1.0'')
      else if body = ''registry 2.0'' then (None, ex_registry ''2.0'')
      else if body = ''registry test'' then (None, ex_registry_test)
      else (Some (JSONError ''invalid character''), r))"

definition ex_Decode_object :: "string \<Rightarrow> string \<Rightarrow> error option \<times> string" where
  "ex_Decode_object body object =
     (if body = ''{}'' then (None, ''{}'')
      else if body = [] then (Some (JSONError ''EOF''), object)
      else (Some (JSONError ''invalid character''), object))"

text \<open>A matcher for the one entry of the example registry.\<close>

definition ex_MatchDomain :: "ServiceRegistry \<Rightarrow> string \<Rightarrow> error + Values" where
  "ex_MatchDomain r fqdn =
     (case Services r of
        [] \<Rightarrow> Inr []
      | s # ss \<Rightarrow>
          if fqdn = ''example.com'' \<and> ''com'' \<in> set (Service_Entries s)
          then Inr (Service_URIs s) else Inr [])"

definition ex_MatchAS :: "ServiceRegistry \<Rightarrow> 64 word \<Rightarrow> error + Values" where
  "ex_MatchAS r n = Inr []"

definition ex_MatchIPNetwork :: "ServiceRegistry \<Rightarrow> IPNet \<Rightarrow> error + Values" where
  "ex_MatchIPNetwork r n = Inr []"

definition ex_rt :: "string runtime" where
  "ex_rt =
     \<lparr>NewRequest = ex_NewRequest, Do = ex_Do, Sprintf_kind = ex_Sprintf_kind,
      IPNet_String = ex_IPNet_String, sort_long = ex_sort_long,
      Decode_registry = ex_Decode_registry, Decode_object = ex_Decode_object,
      MatchDomain = ex_MatchDomain, MatchAS = ex_MatchAS, MatchIPNetwork = ex_MatchIPNetwork,
      New_object = []\<rparr>"

definition ex_client :: Client where
  "ex_client = NewClient ''/tmp/rdap''"

definition ex_client_mirror :: Client where
  "ex_client_mirror = ex_client\<lparr>Bootstrap := ''https://mirror.example/rdap/%s.json''\<rparr>"

definition ex_client_test :: Client where
  "ex_client_test = ex_client\<lparr>Bootstrap := ''https://test.example/rdap/%s.json''\<rparr>"

definition ex_client_host :: Client where
  "ex_client_host = ex_client\<lparr>Host := ''https://rdap.example''\<rparr>"

text \<open>The world of the handler: one address and one network parse.\<close>

definition ex_ParseIP :: "string \<Rightarrow> 8 word list option" where
  "ex_ParseIP s = (if s = ''192.0.2.1'' then Some [192, 0, 2, 1] else None)"

definition ex_ParseCIDR :: "string \<Rightarrow> IPNet option" where
  "ex_ParseCIDR s = (if s = ''192.0.2.0/24'' then Some ex_ipnet else None)"

definition ex_answer :: "hevent list \<Rightarrow> string list \<Rightarrow> 'a \<Rightarrow> error + string" where
  "ex_answer log uris v = (if uris = [] then Inl (Errorf ''no data available'') else Inr ''{}'')"

definition ex_answer_Domain :: "hevent list \<Rightarrow> string list \<Rightarrow> string \<Rightarrow> error + string option" where
  "ex_answer_Domain log uris v =
     (if uris = [] then Inl (Errorf ''no data available'') else Inr (Some ''{}''))"

definition ex_ToText :: "string \<Rightarrow> error option" where
  "ex_ToText r = None"

definition ex_world :: "string world" where
  "ex_world =
     \<lparr>ParseIP = ex_ParseIP, ParseCIDR = ex_ParseCIDR, client_ASN = ex_answer,
      client_Entity = ex_answer, client_IPNetwork = ex_answer, client_IP = ex_answer,
      client_Domain = ex_answer_Domain, ToText_AS = ex_ToText, ToText_Entity = ex_ToText,
      ToText_IPNetwork = ex_ToText, ToText_Domain = ex_ToText\<rparr>"

definition ex_handler :: Handler where
  "ex_handler = \<lparr>URIs = [''https://rdap.example''], BootstrapClient = None\<rparr>"

section \<open>The URL sort\<close>

declare insertionSort_inner.simps [simp del] insertionSort_outer.simps [simp del]
declare FormatUint.simps [simp del]

lemma Split_not_Nil: "Split s sep \<noteq> []"
  by (induction s) (auto split: list.splits)

lemma hd_Split: "hd (Split s sep) = takeWhile (\<lambda>c. c \<noteq> sep) s"
proof (induction s)
  case Nil
  show ?case by simp
next
  case (Cons c cs)
  then show ?case
    using Split_not_Nil [of cs sep] by (cases "Split cs sep") auto
qed

lemma Values_Less_is_https: "Values_Less v i j = is_https (v ! i)"
  by (simp add: Values_Less_def is_https_def)

text \<open>One swap of two neighbours, on the list split around them.\<close>

lemma Values_Swap_neighbours:
  "Values_Swap (xs @ x # y # zs) (Suc (length xs)) (length xs) = xs @ y # x # zs"
  by (simp add: Values_Swap_def list_update_append nth_append)

text \<open>
  The inner loop started on an element \<open>y\<close> with \<open>length xs\<close> elements before it: an
  \<^verbatim>\<open>https\<close> URL travels to the front whatever it passes, any other URL stays.
\<close>

lemma insertionSort_inner_https:
  "is_https y \<Longrightarrow> insertionSort_inner (xs @ y # zs) 0 (length xs) = y # xs @ zs"
proof (induction xs arbitrary: zs rule: rev_induct)
  case Nil
  then show ?case by (simp add: insertionSort_inner.simps [of _ 0 0])
next
  case (snoc x xs)
  have less: "Values_Less (xs @ x # y # zs) (Suc (length xs)) (length xs)"
    using snoc.prems by (simp add: Values_Less_is_https nth_append)
  have "insertionSort_inner ((xs @ [x]) @ y # zs) 0 (length (xs @ [x]))
        = insertionSort_inner (xs @ x # y # zs) 0 (Suc (length xs))"
    by simp
  also have "\<dots> = insertionSort_inner
                    (Values_Swap (xs @ x # y # zs) (Suc (length xs)) (length xs)) 0 (length xs)"
    using less by (subst insertionSort_inner.simps) simp
  also have "\<dots> = insertionSort_inner (xs @ y # x # zs) 0 (length xs)"
    by (simp only: Values_Swap_neighbours)
  also have "\<dots> = y # xs @ x # zs"
    using snoc.IH [OF snoc.prems, of "x # zs"] .
  finally show ?case by simp
qed

lemma insertionSort_inner_other:
  "\<not> is_https y \<Longrightarrow> insertionSort_inner (xs @ y # zs) 0 (length xs) = xs @ y # zs"
  by (subst insertionSort_inner.simps) (simp add: Values_Less_is_https nth_append)

text \<open>The outer loop with the first \<open>length p\<close> elements done.\<close>

lemma insertionSort_outer_eq:
  "insertionSort_outer (p @ rest) 0 (length (p @ rest)) (length p)
     = rev (filter is_https rest) @ p @ filter (\<lambda>u. \<not> is_https u) rest"
proof (induction rest arbitrary: p)
  case Nil
  show ?case by (subst insertionSort_outer.simps) simp
next
  case (Cons y zs)
  show ?case
  proof (cases "is_https y")
    case True
    have "insertionSort_outer (p @ y # zs) 0 (length (p @ y # zs)) (length p)
        = insertionSort_outer ((y # p) @ zs) 0 (length ((y # p) @ zs)) (length (y # p))"
      using insertionSort_inner_https [OF True, of p zs]
      by (subst insertionSort_outer.simps) simp
    also have "\<dots> = rev (filter is_https zs) @ (y # p) @ filter (\<lambda>u. \<not> is_https u) zs"
      by (rule Cons.IH)
    finally show ?thesis using True by simp
  next
    case False
    have "insertionSort_outer (p @ y # zs) 0 (length (p @ y # zs)) (length p)
        = insertionSort_outer ((p @ [y]) @ zs) 0 (length ((p @ [y]) @ zs)) (length (p @ [y]))"
      using insertionSort_inner_other [OF False, of p zs]
      by (subst insertionSort_outer.simps) simp
    also have "\<dots> = rev (filter is_https zs) @ (p @ [y]) @ filter (\<lambda>u. \<not> is_https u) zs"
      by (rule Cons.IH)
    finally show ?thesis using False by simp
  qed
qed

text \<open>
  What the insertion sort makes of a whole list under \<open>Values_Less\<close>: the \<^verbatim>\<open>https\<close>
  URLs in reverse, then the others as they stood.
\<close>

lemma insertionSort_eq:
  "insertionSort v 0 (length v) = rev (filter is_https v) @ filter (\<lambda>u. \<not> is_https u) v"
proof (cases v)
  case Nil
  then show ?thesis
    by (simp add: insertionSort_def insertionSort_outer.simps [of _ 0 0])
next
  case (Cons x rest)
  have "insertionSort v 0 (length v)
        = insertionSort_outer ([x] @ rest) 0 (length ([x] @ rest)) (length [x])"
    by (simp add: insertionSort_def Cons)
  also have "\<dots> = rev (filter is_https rest) @ [x] @ filter (\<lambda>u. \<not> is_https u) rest"
    by (rule insertionSort_outer_eq)
  finally show ?thesis by (simp add: Cons)
qed

lemma sort_Sort_short:
  "length v \<le> 6 \<Longrightarrow>
     sort_Sort sl v = rev (filter is_https v) @ filter (\<lambda>u. \<not> is_https u) v"
  by (simp add: sort_Sort_def Values_Len_def insertionSort_eq)

lemma sort_Sort_single: "sort_Sort sl [u] = [u]"
  by (simp add: sort_Sort_short)

lemma set_sort_Sort_short: "length v \<le> 6 \<Longrightarrow> set (sort_Sort sl v) = set v"
  by (auto simp: sort_Sort_short)

text \<open>
  C1, as amended. The claim: each service decoded from a bootstrap document has its URLs
  re-sorted so that every \<^verbatim>\<open>https\<close> URL precedes every other one, the order within each
  scheme class is the document's, and a second sort changes nothing. What holds, for a
  service of at most six URLs (where \<^verbatim>\<open>sort.Sort\<close> is the library's insertion sort):
  decoding succeeds with the document's entries; the URLs are a rearrangement of the
  document's; every \<^verbatim>\<open>https\<close> URL precedes every other one; and the URLs of the other
  schemes keep the document's order. Nothing is said of the order among the \<^verbatim>\<open>https\<close>
  URLs, nor of a second sort.
\<close>

theorem Service_UnmarshalJSON_https_first:
  assumes "json_Unmarshal b = Inr (entries, urls)" and "length urls \<le> 6"
  shows "fst (Service_UnmarshalJSON json_Unmarshal sl b s) = None
       \<and> Service_Entries (snd (Service_UnmarshalJSON json_Unmarshal sl b s)) = entries
       \<and> mset (Service_URIs (snd (Service_UnmarshalJSON json_Unmarshal sl b s))) = mset urls
       \<and> Service_URIs (snd (Service_UnmarshalJSON json_Unmarshal sl b s))
           = filter is_https (Service_URIs (snd (Service_UnmarshalJSON json_Unmarshal sl b s)))
             @ filter (\<lambda>u. \<not> is_https u)
                 (Service_URIs (snd (Service_UnmarshalJSON json_Unmarshal sl b s)))
       \<and> filter (\<lambda>u. \<not> is_https u)
             (Service_URIs (snd (Service_UnmarshalJSON json_Unmarshal sl b s)))
           = filter (\<lambda>u. \<not> is_https u) urls"
proof -
  let ?uris = "rev (filter is_https urls) @ filter (\<lambda>u. \<not> is_https u) urls"
  have res: "Service_UnmarshalJSON json_Unmarshal sl b s = (None, (entries, ?uris))"
    using assms by (simp add: Service_UnmarshalJSON_def sort_Sort_short)
  have perm: "mset ?uris = mset urls"
    by simp
  have https: "filter is_https ?uris = rev (filter is_https urls)"
    by (simp add: filter_empty_conv)
  have other: "filter (\<lambda>u. \<not> is_https u) ?uris = filter (\<lambda>u. \<not> is_https u) urls"
    by (simp add: filter_empty_conv)
  show ?thesis
    unfolding res fst_conv snd_conv Service_URIs_def Service_Entries_def https other
    using perm by simp
qed

text \<open>
  The theorem at a service with five URLs of three schemes: the two \<^verbatim>\<open>https\<close> URLs come
  first, the \<^verbatim>\<open>http\<close> and \<^verbatim>\<open>ftp\<close> URLs follow in the document's order.
\<close>

theorem Service_UnmarshalJSON_https_first_witness:
  "ex_json_Unmarshal
     ''[[net],[http://a.example,https://b.example,ftp://c.example,http://d.example,https://e.example]]''
     = Inr ([''net''],
            [''http://a.example'', ''https://b.example'', ''ftp://c.example'',
             ''http://d.example'', ''https://e.example''])
   \<and> filter (\<lambda>u. \<not> is_https u)
         (Service_URIs (snd (Service_UnmarshalJSON ex_json_Unmarshal ex_sort_long
            ''[[net],[http://a.example,https://b.example,ftp://c.example,http://d.example,https://e.example]]''
            ([], []))))
       = [''http://a.example'', ''ftp://c.example'', ''http://d.example'']
   \<and> Service_UnmarshalJSON ex_json_Unmarshal ex_sort_long
        ''[[net],[http://a.example,https://b.example,ftp://c.example,http://d.example,https://e.example]]''
        ([], [])
       = (None, ([''net''],
                 [''https://e.example'', ''https://b.example'', ''http://a.example'',
                  ''ftp://c.example'', ''http://d.example'']))"
proof -
  let ?doc = "''[[net],[http://a.example,https://b.example,ftp://c.example,http://d.example,https://e.example]]''"
  let ?urls = "[''http://a.example'', ''https://b.example'', ''ftp://c.example'',
                ''http://d.example'', ''https://e.example'']"
  have doc: "ex_json_Unmarshal ?doc = Inr ([''net''], ?urls)"
    by (simp add: ex_json_Unmarshal_def)
  have len: "length ?urls \<le> 6"
    by simp
  have other: "filter (\<lambda>u. \<not> is_https u) ?urls
               = [''http://a.example'', ''ftp://c.example'', ''http://d.example'']"
    by (simp add: is_https_def)
  have run: "Service_UnmarshalJSON ex_json_Unmarshal ex_sort_long ?doc ([], [])
             = (None, ([''net''],
                 [''https://e.example'', ''https://b.example'', ''http://a.example'',
                  ''ftp://c.example'', ''http://d.example'']))"
    by (simp add: Service_UnmarshalJSON_def doc sort_Sort_short is_https_def)
  show ?thesis
    using Service_UnmarshalJSON_https_first
            [where json_Unmarshal = ex_json_Unmarshal and sl = ex_sort_long and s = "([], [])",
             OF doc len]
          other run doc
    by simp
qed

text \<open>
  Against C1 as stated: a service whose document lists \<^verbatim>\<open>https://a.example\<close> before
  \<^verbatim>\<open>https://b.example\<close> is decoded with the two exchanged, and sorting the decoded list
  once more exchanges them back: the order within the \<^verbatim>\<open>https\<close> class is not the
  document's, and the sort is not idempotent.
\<close>

theorem Service_UnmarshalJSON_counterexample:
  "Service_UnmarshalJSON ex_json_Unmarshal ex_sort_long
     ''[[com],[https://a.example,https://b.example]]'' ([], [])
     = (None, ([''com''], [''https://b.example'', ''https://a.example'']))
   \<and> sort_Sort ex_sort_long [''https://b.example'', ''https://a.example'']
     = [''https://a.example'', ''https://b.example'']"
  by (simp add: Service_UnmarshalJSON_def ex_json_Unmarshal_def sort_Sort_def Values_Len_def
      insertionSort_def insertionSort_outer.simps insertionSort_inner.simps
      Values_Less_def Values_Swap_def)

section \<open>The client\<close>

subsection \<open>Auxiliary facts\<close>

lemma fetch_log:
  "snd (snd (Client_fetchAndUnmarshal rt c decode uri object log))
     = (if NewRequest rt uri = None then log @ [Request uri] else log)"
  by (simp add: Client_fetchAndUnmarshal_def split: option.splits sum.splits prod.splits)

lemma fetch_success_NewRequest:
  "fst (Client_fetchAndUnmarshal rt c decode uri object log) = None \<Longrightarrow> NewRequest rt uri = None"
  by (simp add: Client_fetchAndUnmarshal_def split: option.splits sum.splits prod.splits)

lemma query_loop_append:
  "query_loop rt c segment identifier (us @ vs) object log
     = (case query_loop rt c segment identifier us object log of
          (None, object', log') \<Rightarrow> (None, object', log')
        | (Some err, object', log') \<Rightarrow> query_loop rt c segment identifier vs object' log')"
  by (induction us arbitrary: object log) (simp_all split: prod.splits option.splits)

lemma query_loop_error:
  "fst (query_loop rt c segment identifier uris object log) = Some e \<Longrightarrow>
     e = Errorf (''no data available for '' @ fmt_v rt identifier)"
  by (induction uris arbitrary: object log) (auto split: prod.splits option.splits)

lemma query_loop_log:
  "\<exists>n\<le>length uris.
     snd (snd (query_loop rt c segment identifier uris object log))
       = log @ map Request
           (filter (\<lambda>u. NewRequest rt u = None)
              (map (\<lambda>uri. uri @ ''/'' @ segment @ ''/'' @ fmt_v rt identifier) (take n uris)))"
proof (induction uris arbitrary: object log)
  case Nil
  show ?case by simp
next
  case (Cons uri uris)
  let ?url = "uri @ ''/'' @ segment @ ''/'' @ fmt_v rt identifier"
  obtain err object' log' where
    f: "Client_fetchAndUnmarshal rt c (Decode_object rt) ?url object log = (err, object', log')"
    by (cases "Client_fetchAndUnmarshal rt c (Decode_object rt) ?url object log") auto
  have log': "log' = (if NewRequest rt ?url = None then log @ [Request ?url] else log)"
    using fetch_log [of rt c "Decode_object rt" ?url object log] f by simp
  show ?case
  proof (cases err)
    case None
    then have "NewRequest rt ?url = None"
      using fetch_success_NewRequest [of rt c "Decode_object rt" ?url object log] f by simp
    then have "snd (snd (query_loop rt c segment identifier (uri # uris) object log))
       = log @ map Request
           (filter (\<lambda>u. NewRequest rt u = None)
              (map (\<lambda>uri. uri @ ''/'' @ segment @ ''/'' @ fmt_v rt identifier) (take 1 (uri # uris))))"
      using f None log' by simp
    then show ?thesis
      by (intro exI [of _ 1]) simp
  next
    case (Some e)
    from Cons.IH [of object' log'] obtain n where
      n: "n \<le> length uris"
         "snd (snd (query_loop rt c segment identifier uris object' log'))
          = log' @ map Request
              (filter (\<lambda>u. NewRequest rt u = None)
                 (map (\<lambda>uri. uri @ ''/'' @ segment @ ''/'' @ fmt_v rt identifier) (take n uris)))"
      by blast
    have "snd (snd (query_loop rt c segment identifier (uri # uris) object log))
       = log @ map Request
           (filter (\<lambda>u. NewRequest rt u = None)
              (map (\<lambda>uri. uri @ ''/'' @ segment @ ''/'' @ fmt_v rt identifier) (take (Suc n) (uri # uris))))"
      using f Some n(2) log' by simp
    then show ?thesis
      using n(1) by (intro exI [of _ "Suc n"]) simp
  qed
qed

lemma kindToSegment_total:
  "kindToSegment k = Some (case k of dns \<Rightarrow> ''domain'' | asn \<Rightarrow> ''autnum'' | ipv4 \<Rightarrow> ''ip'' | ipv6 \<Rightarrow> ''ip'')"
  by (cases k) (simp_all add: kindToSegment_def)

lemma query_candidates_Host:
  "query_candidates rt c k identifier [h] object log
     = (case Client_fetchAndUnmarshal rt c (Decode_object rt)
               (h @ ''/'' @ (case k of dns \<Rightarrow> ''domain'' | asn \<Rightarrow> ''autnum'' | ipv4 \<Rightarrow> ''ip'' | ipv6 \<Rightarrow> ''ip'')
                  @ ''/'' @ fmt_v rt identifier) object log of
          (None, object', log') \<Rightarrow> (Return None, object', log')
        | (Some err, object', log') \<Rightarrow>
            (Return (Some (Errorf (''no data available for '' @ fmt_v rt identifier))), object', log'))"
  by (simp add: query_candidates_def sort_Sort_single kindToSegment_total split: prod.splits option.splits)

lemmas ex_client_defs =
  ex_rt_def ex_client_def ex_client_host_def ex_client_mirror_def ex_client_test_def NewClient_def
  RDAPBootstrap_def ex_NewRequest_def ex_Do_def ex_Decode_object_def ex_Decode_registry_def
  ex_registry_def ex_registry_test_def
  ex_MatchDomain_def ex_Sprintf_kind_def ex_IPNet_String_def kind_string_def
  Service_Entries_def Service_URIs_def

subsection \<open>One fetch\<close>

text \<open>
  C10. \<^verbatim>\<open>Client.fetchAndUnmarshal\<close> inspects neither the status code nor the
  \<^verbatim>\<open>Content-Type\<close> header of the response: overwriting both in every response of the
  world changes nothing of its outcome (error, object, requests sent). Its error is the
  request-construction error if there is one, else the transport error if there is one,
  else whatever the decoder says of the body; so it succeeds exactly when the request is
  built, the exchange gives a response, and the body of that response decodes into the
  target.
\<close>

theorem Client_fetchAndUnmarshal_body_only:
  "Client_fetchAndUnmarshal (restamp code ctype rt) c decode uri object log
     = Client_fetchAndUnmarshal rt c decode uri object log
   \<and> fst (Client_fetchAndUnmarshal rt c decode uri object log)
     = (case NewRequest rt uri of
          Some err \<Rightarrow> Some err
        | None \<Rightarrow>
            (case Do rt (cacheDir c) log uri of
               Inl err \<Rightarrow> Some err
             | Inr resp \<Rightarrow> fst (decode (Body resp) object)))
   \<and> (fst (Client_fetchAndUnmarshal rt c decode uri object log) = None)
     = (NewRequest rt uri = None
        \<and> (\<exists>resp. Do rt (cacheDir c) log uri = Inr resp
                   \<and> fst (decode (Body resp) object) = None))"
proof (intro conjI)
  show "Client_fetchAndUnmarshal (restamp code ctype rt) c decode uri object log
     = Client_fetchAndUnmarshal rt c decode uri object log"
    by (simp add: Client_fetchAndUnmarshal_def restamp_def
        split: option.splits sum.splits prod.splits)
  show "fst (Client_fetchAndUnmarshal rt c decode uri object log)
     = (case NewRequest rt uri of
          Some err \<Rightarrow> Some err
        | None \<Rightarrow>
            (case Do rt (cacheDir c) log uri of
               Inl err \<Rightarrow> Some err
             | Inr resp \<Rightarrow> fst (decode (Body resp) object)))"
    by (simp add: Client_fetchAndUnmarshal_def split: option.splits sum.splits prod.splits)
  show "(fst (Client_fetchAndUnmarshal rt c decode uri object log) = None)
     = (NewRequest rt uri = None
        \<and> (\<exists>resp. Do rt (cacheDir c) log uri = Inr resp
                   \<and> fst (decode (Body resp) object) = None))"
    by (auto simp add: Client_fetchAndUnmarshal_def split: option.splits sum.splits prod.splits)
qed

text \<open>
  The theorem at the server that answers 200 with \<^verbatim>\<open>application/rdap+json\<close>: the same
  answer stamped 503 and \<^verbatim>\<open>text/plain\<close> is fetched with success all the same.
\<close>

theorem Client_fetchAndUnmarshal_body_only_witness:
  "Client_fetchAndUnmarshal (restamp 503 ''text/plain'' ex_rt) ex_client ex_Decode_object
     ''http://a.example/domain/example.com'' [] []
   = (None, ''{}'', [Request ''http://a.example/domain/example.com''])"
proof -
  have "Client_fetchAndUnmarshal ex_rt ex_client ex_Decode_object
          ''http://a.example/domain/example.com'' [] []
        = (None, ''{}'', [Request ''http://a.example/domain/example.com''])"
    by (simp add: Client_fetchAndUnmarshal_def ex_client_defs)
  then show ?thesis
    using Client_fetchAndUnmarshal_body_only
            [of 503 "''text/plain''" ex_rt ex_client ex_Decode_object
                "''http://a.example/domain/example.com''" "[]" "[]"]
    by simp
qed


subsection \<open>The candidate loop\<close>


subsection \<open>The query\<close>

lemma query_candidates_log:
  "\<exists>rest. snd (snd (query_candidates rt c k identifier uris object log)) = log @ rest"
proof -
  let ?seg = "case kindToSegment k of Some s \<Rightarrow> s | None \<Rightarrow> []"
  let ?uris = "sort_Sort (sort_long rt) uris"
  from query_loop_log [of ?uris rt c ?seg "identifier" object log]
  obtain n where
    "snd (snd (query_loop rt c ?seg identifier ?uris object log))
     = log @ map Request
         (filter (\<lambda>u. NewRequest rt u = None)
            (map (\<lambda>uri. uri @ ''/'' @ ?seg @ ''/'' @ fmt_v rt identifier) (take n ?uris)))"
    by blast
  then show ?thesis
    by (cases "query_loop rt c ?seg identifier ?uris object log")
       (simp add: query_candidates_def)
qed

lemma query_match_ipv4_ipv6: "query_match rt ipv4 r identifier = query_match rt ipv6 r identifier"
  by (simp add: query_match_def)

lemma query_candidates_ipv4_ipv6:
  "query_candidates rt c ipv4 identifier uris object log
     = query_candidates rt c ipv6 identifier uris object log"
  by (simp add: query_candidates_def kindToSegment_def)

lemma Client_query_bootstrap:
  assumes "Host c = []"
    and "Client_fetchAndUnmarshal rt c (Decode_registry rt) (Sprintf_kind rt (Bootstrap c) k)
           empty_registry log = (None, r, log1)"
  shows "Client_query rt c k identifier object log
         = (case query_match rt k r identifier of
              Panic \<Rightarrow> (Panic, object, log1)
            | Return (Inl err) \<Rightarrow> (Return (Some err), object, log1 @ [Match identifier])
            | Return (Inr uris) \<Rightarrow>
                if uris = []
                then (Return (Some (Errorf (''no matches for '' @ fmt_v rt identifier))), object,
                      log1 @ [Match identifier])
                else query_candidates rt c k identifier uris object (log1 @ [Match identifier]))"
  using assms by (simp add: Client_query_def split: go.splits sum.splits)


text \<open>
  C8. When the matcher returns an empty candidate list (which takes an empty \<^verbatim>\<open>Host\<close>, a
  bootstrap document fetched and decoded, and an identifier that fits the kind), the query
  returns the error \<^verbatim>\<open>no matches for <identifier>\<close>, leaves the object alone and sends
  no request to any candidate. That error is none of the others a query can end with: not
  \<^verbatim>\<open>no data available for <identifier>\<close>, which follows failed fetches, and not an error
  of the transport or of the construction of a request.
\<close>

theorem Client_query_no_matches:
  assumes "Host c = []"
    and "Client_fetchAndUnmarshal rt c (Decode_registry rt) (Sprintf_kind rt (Bootstrap c) k)
           empty_registry log = (None, r, log1)"
    and "query_match rt k r identifier = Return (Inr [])"
  shows "Client_query rt c k identifier object log
         = (Return (Some (Errorf (''no matches for '' @ fmt_v rt identifier))), object,
            log1 @ [Match identifier])
       \<and> Errorf (''no matches for '' @ fmt_v rt identifier)
           \<noteq> Errorf (''no data available for '' @ fmt_v rt identifier)
       \<and> Errorf (''no matches for '' @ fmt_v rt identifier) \<noteq> TransportError msg
       \<and> Errorf (''no matches for '' @ fmt_v rt identifier) \<noteq> URLError msg"
  using assms by (simp add: Client_query_bootstrap)

text \<open>The theorem at \<^verbatim>\<open>example.org\<close>, which the example registry does not list.\<close>

theorem Client_query_no_matches_witness:
  "Host ex_client = []
   \<and> Client_fetchAndUnmarshal ex_rt ex_client (Decode_registry ex_rt)
       (Sprintf_kind ex_rt (Bootstrap ex_client) dns) empty_registry []
     = (None, ex_registry ''1.0'', [Request ''https://data.iana.org/rdap/dns.json''])
   \<and> query_match ex_rt dns (ex_registry ''1.0'') (IdString ''example.org'') = Return (Inr [])
   \<and> Client_query ex_rt ex_client dns (IdString ''example.org'') [] []
     = (Return (Some (Errorf ''no matches for example.org'')), [],
        [Request ''https://data.iana.org/rdap/dns.json'', Match (IdString ''example.org'')])"
proof -
  have host: "Host ex_client = []"
    by (simp add: ex_client_defs)
  have fetch: "Client_fetchAndUnmarshal ex_rt ex_client (Decode_registry ex_rt)
       (Sprintf_kind ex_rt (Bootstrap ex_client) dns) empty_registry []
     = (None, ex_registry ''1.0'', [Request ''https://data.iana.org/rdap/dns.json''])"
    by (simp add: Client_fetchAndUnmarshal_def ex_client_defs)
  have none: "query_match ex_rt dns (ex_registry ''1.0'') (IdString ''example.org'') = Return (Inr [])"
    by (simp add: query_match_def ex_client_defs)
  have name: "fmt_v ex_rt (IdString ''example.org'') = ''example.org''"
    by (simp add: fmt_v_def)
  show ?thesis
    using Client_query_no_matches [OF host fetch none, of "[]"] host fetch none name
    by simp
qed

text \<open>
  C5, as amended. The claim: with a non-empty \<^verbatim>\<open>Host\<close> the bootstrap document is never
  fetched, the version check and the matcher never run, and the host is the sole
  candidate; with an empty \<^verbatim>\<open>Host\<close> the full bootstrap resolution path runs. What holds
  of \<^verbatim>\<open>Client.query\<close>: with a non-empty \<^verbatim>\<open>Host\<close> the query is one fetch of
  \<^verbatim>\<open><Host>/<segment>/<identifier>\<close>: nothing is logged but the request for that URL
  (not even that one if it cannot be built), so the bootstrap document is not fetched and
  no matcher is called; the result is the object of that fetch, or \<^verbatim>\<open>no data available
  for <identifier>\<close>. With an empty \<^verbatim>\<open>Host\<close> the first request is for the bootstrap
  document of the kind; an error of that fetch is the result of the query; and once the
  document \<open>r\<close> is fetched and decoded, the matcher of the kind is called on \<open>r\<close> and the
  identifier (\<^verbatim>\<open>MatchDomain\<close> for a domain name, \<^verbatim>\<open>MatchAS\<close> for an AS number,
  \<^verbatim>\<open>MatchIPNetwork\<close> for a network of either family): its error or its empty answer
  ends the query, and its candidates are queried. Nothing is said of a version check on
  that path.
\<close>

theorem Client_query_Host_override:
  "(Host c \<noteq> []
      \<longrightarrow> Client_query rt c k identifier object log
          = (case Client_fetchAndUnmarshal rt c (Decode_object rt)
                    (Host c @ ''/''
                       @ (case k of dns \<Rightarrow> ''domain'' | asn \<Rightarrow> ''autnum''
                                  | ipv4 \<Rightarrow> ''ip'' | ipv6 \<Rightarrow> ''ip'')
                       @ ''/'' @ fmt_v rt identifier) object log of
               (None, object', log') \<Rightarrow> (Return None, object', log')
             | (Some err, object', log') \<Rightarrow>
                 (Return (Some (Errorf (''no data available for '' @ fmt_v rt identifier))),
                  object', log'))
        \<and> snd (snd (Client_query rt c k identifier object log))
          = (if NewRequest rt
                  (Host c @ ''/''
                     @ (case k of dns \<Rightarrow> ''domain'' | asn \<Rightarrow> ''autnum''
                                | ipv4 \<Rightarrow> ''ip'' | ipv6 \<Rightarrow> ''ip'')
                     @ ''/'' @ fmt_v rt identifier) = None
             then log @ [Request
                  (Host c @ ''/''
                     @ (case k of dns \<Rightarrow> ''domain'' | asn \<Rightarrow> ''autnum''
                                | ipv4 \<Rightarrow> ''ip'' | ipv6 \<Rightarrow> ''ip'')
                     @ ''/'' @ fmt_v rt identifier)]
             else log))
   \<and> (Host c = []
      \<longrightarrow> (NewRequest rt (Sprintf_kind rt (Bootstrap c) k) = None
           \<longrightarrow> (\<exists>rest. snd (snd (Client_query rt c k identifier object log))
                         = log @ Request (Sprintf_kind rt (Bootstrap c) k) # rest))
        \<and> (\<forall>err. fst (Client_fetchAndUnmarshal rt c (Decode_registry rt)
                         (Sprintf_kind rt (Bootstrap c) k) empty_registry log) = Some err
                \<longrightarrow> fst (Client_query rt c k identifier object log) = Return (Some err))
        \<and> (\<forall>r log1 m.
              Client_fetchAndUnmarshal rt c (Decode_registry rt)
                (Sprintf_kind rt (Bootstrap c) k) empty_registry log = (None, r, log1)
              \<and> ((k = dns \<and> identifier = IdString fqdn \<and> m = MatchDomain rt r fqdn)
                 \<or> (k = asn \<and> identifier = IdUint64 as \<and> m = MatchAS rt r as)
                 \<or> ((k = ipv4 \<or> k = ipv6) \<and> identifier = IdIPNet ipnet
                    \<and> m = MatchIPNetwork rt r ipnet))
              \<longrightarrow> Client_query rt c k identifier object log
                  = (case m of
                       Inl err \<Rightarrow> (Return (Some err), object, log1 @ [Match identifier])
                     | Inr uris \<Rightarrow>
                         if uris = []
                         then (Return (Some (Errorf (''no matches for ''
                                                      @ fmt_v rt identifier))), object,
                               log1 @ [Match identifier])
                         else query_candidates rt c k identifier uris object
                                (log1 @ [Match identifier]))))"
proof (intro conjI impI allI)
  let ?url = "Host c @ ''/''
                @ (case k of dns \<Rightarrow> ''domain'' | asn \<Rightarrow> ''autnum'' | ipv4 \<Rightarrow> ''ip'' | ipv6 \<Rightarrow> ''ip'')
                @ ''/'' @ fmt_v rt identifier"
  assume host: "Host c \<noteq> []"
  show q: "Client_query rt c k identifier object log
          = (case Client_fetchAndUnmarshal rt c (Decode_object rt) ?url object log of
               (None, object', log') \<Rightarrow> (Return None, object', log')
             | (Some err, object', log') \<Rightarrow>
                 (Return (Some (Errorf (''no data available for '' @ fmt_v rt identifier))),
                  object', log'))"
    using host by (simp add: Client_query_def query_candidates_Host)
  show "snd (snd (Client_query rt c k identifier object log))
          = (if NewRequest rt ?url = None then log @ [Request ?url] else log)"
    using fetch_log [of rt c "Decode_object rt" ?url object log]
    by (cases "Client_fetchAndUnmarshal rt c (Decode_object rt) ?url object log")
       (auto simp add: q split: option.splits)
next
  let ?b = "Sprintf_kind rt (Bootstrap c) k"
  assume host: "Host c = []" and req: "NewRequest rt ?b = None"
  obtain err r log1 where
    f: "Client_fetchAndUnmarshal rt c (Decode_registry rt) ?b empty_registry log = (err, r, log1)"
    by (cases "Client_fetchAndUnmarshal rt c (Decode_registry rt) ?b empty_registry log") auto
  have log1: "log1 = log @ [Request ?b]"
    using fetch_log [of rt c "Decode_registry rt" ?b empty_registry log] f req by simp
  show "\<exists>rest. snd (snd (Client_query rt c k identifier object log)) = log @ Request ?b # rest"
  proof (cases err)
    case (Some e)
    then show ?thesis
      using host f log1 by (simp add: Client_query_def)
  next
    case None
    show ?thesis
    proof (cases "query_match rt k r identifier")
      case Panic
      then show ?thesis
        using host f None log1 by (simp add: Client_query_bootstrap)
    next
      case (Return m)
      obtain rest where
        "snd (snd (query_candidates rt c k identifier (projr m) object (log1 @ [Match identifier])))
         = (log1 @ [Match identifier]) @ rest"
        using query_candidates_log
                [of rt c k "identifier" "projr m" object "log1 @ [Match identifier]"]
        by blast
      then show ?thesis
        using host f None log1 Return by (cases m) (simp_all add: Client_query_bootstrap)
    qed
  qed
next
  fix err
  assume "Host c = []"
    and "fst (Client_fetchAndUnmarshal rt c (Decode_registry rt)
               (Sprintf_kind rt (Bootstrap c) k) empty_registry log) = Some err"
  then show "fst (Client_query rt c k identifier object log) = Return (Some err)"
    by (cases "Client_fetchAndUnmarshal rt c (Decode_registry rt)
               (Sprintf_kind rt (Bootstrap c) k) empty_registry log")
       (simp add: Client_query_def)
next
  fix r log1 m
  assume host: "Host c = []"
    and m: "Client_fetchAndUnmarshal rt c (Decode_registry rt)
              (Sprintf_kind rt (Bootstrap c) k) empty_registry log = (None, r, log1)
            \<and> ((k = dns \<and> identifier = IdString fqdn \<and> m = MatchDomain rt r fqdn)
               \<or> (k = asn \<and> identifier = IdUint64 as \<and> m = MatchAS rt r as)
               \<or> ((k = ipv4 \<or> k = ipv6) \<and> identifier = IdIPNet ipnet
                  \<and> m = MatchIPNetwork rt r ipnet))"
  from m have matched: "query_match rt k r identifier = Return m"
    by (auto simp add: query_match_def)
  from m have "Client_fetchAndUnmarshal rt c (Decode_registry rt)
              (Sprintf_kind rt (Bootstrap c) k) empty_registry log = (None, r, log1)"
    by simp
  with host show "Client_query rt c k identifier object log
                  = (case m of
                       Inl err \<Rightarrow> (Return (Some err), object, log1 @ [Match identifier])
                     | Inr uris \<Rightarrow>
                         if uris = []
                         then (Return (Some (Errorf (''no matches for ''
                                                      @ fmt_v rt identifier))), object,
                               log1 @ [Match identifier])
                         else query_candidates rt c k identifier uris object
                                (log1 @ [Match identifier]))"
    by (simp add: Client_query_bootstrap matched split: sum.splits)
qed

text \<open>
  The theorem at the client whose \<^verbatim>\<open>Host\<close> is \<^verbatim>\<open>https://rdap.example\<close>: one request,
  to that host; and at the client without a \<^verbatim>\<open>Host\<close>: the bootstrap document first,
  then the matcher on it, whose two candidates for \<^verbatim>\<open>com\<close> are asked in turn.
\<close>

theorem Client_query_Host_override_witness:
  "Host ex_client_host \<noteq> []
   \<and> Client_query ex_rt ex_client_host dns (IdString ''example.com'') [] []
     = (Return None, ''{}'', [Request ''https://rdap.example/domain/example.com''])
   \<and> Host ex_client = []
   \<and> NewRequest ex_rt (Sprintf_kind ex_rt (Bootstrap ex_client) dns) = None
   \<and> Sprintf_kind ex_rt (Bootstrap ex_client) dns = ''https://data.iana.org/rdap/dns.json''
   \<and> (\<exists>rest. snd (snd (Client_query ex_rt ex_client dns (IdString ''example.com'') [] []))
               = Request ''https://data.iana.org/rdap/dns.json'' # rest)
   \<and> Client_fetchAndUnmarshal ex_rt ex_client (Decode_registry ex_rt)
        ''https://data.iana.org/rdap/dns.json'' empty_registry []
     = (None, ex_registry ''1.0'', [Request ''https://data.iana.org/rdap/dns.json''])
   \<and> MatchDomain ex_rt (ex_registry ''1.0'') ''example.com''
     = Inr [''https://b.example'', ''http://a.example'']
   \<and> Client_query ex_rt ex_client dns (IdString ''example.com'') [] []
     = (Return None, ''{}'',
        [Request ''https://data.iana.org/rdap/dns.json'', Match (IdString ''example.com''),
         Request ''https://b.example/domain/example.com'',
         Request ''http://a.example/domain/example.com''])"
proof -
  have host: "Host ex_client_host \<noteq> []"
    by (simp add: ex_client_defs)
  have fetch: "Client_fetchAndUnmarshal ex_rt ex_client_host (Decode_object ex_rt)
                 ''https://rdap.example/domain/example.com'' [] []
               = (None, ''{}'', [Request ''https://rdap.example/domain/example.com''])"
    by (simp add: Client_fetchAndUnmarshal_def ex_client_defs)
  have url: "Host ex_client_host @ ''/'' @ ''domain'' @ ''/'' @ fmt_v ex_rt (IdString ''example.com'')
             = ''https://rdap.example/domain/example.com''"
    by (simp add: ex_client_defs fmt_v_def)
  have nohost: "Host ex_client = []"
    by (simp add: ex_client_defs)
  have b: "Sprintf_kind ex_rt (Bootstrap ex_client) dns = ''https://data.iana.org/rdap/dns.json''"
    by (simp add: ex_client_defs)
  have req: "NewRequest ex_rt (Sprintf_kind ex_rt (Bootstrap ex_client) dns) = None"
    by (simp add: b) (simp add: ex_client_defs)
  have doc: "Client_fetchAndUnmarshal ex_rt ex_client (Decode_registry ex_rt)
        ''https://data.iana.org/rdap/dns.json'' empty_registry []
     = (None, ex_registry ''1.0'', [Request ''https://data.iana.org/rdap/dns.json''])"
    by (simp add: Client_fetchAndUnmarshal_def ex_rt_def ex_client_def NewClient_def
        ex_NewRequest_def ex_Do_def ex_Decode_registry_def)
  have matched: "MatchDomain ex_rt (ex_registry ''1.0'') ''example.com''
     = Inr [''https://b.example'', ''http://a.example'']"
    by (simp add: ex_client_defs)
  have candidates: "query_candidates ex_rt ex_client dns (IdString ''example.com'')
        [''https://b.example'', ''http://a.example''] []
        [Request ''https://data.iana.org/rdap/dns.json'', Match (IdString ''example.com'')]
     = (Return None, ''{}'',
        [Request ''https://data.iana.org/rdap/dns.json'', Match (IdString ''example.com''),
         Request ''https://b.example/domain/example.com'',
         Request ''http://a.example/domain/example.com''])"
    by (simp add: query_candidates_def sort_Sort_short is_https_def kindToSegment_def
        Client_fetchAndUnmarshal_def ex_client_defs fmt_v_def)
  have over: "Client_query ex_rt ex_client_host dns (IdString ''example.com'') [] []
     = (Return None, ''{}'', [Request ''https://rdap.example/domain/example.com''])"
    using Client_query_Host_override
            [of ex_client_host ex_rt dns "IdString ''example.com''" "[]" "[]"]
          host fetch url
    by simp
  have boot: "\<exists>rest. snd (snd (Client_query ex_rt ex_client dns (IdString ''example.com'') [] []))
               = Request ''https://data.iana.org/rdap/dns.json'' # rest"
    using Client_query_Host_override
            [of ex_client ex_rt dns "IdString ''example.com''" "[]" "[]"]
          nohost req b
    by simp
  have run: "Client_query ex_rt ex_client dns (IdString ''example.com'') [] []
     = (Return None, ''{}'',
        [Request ''https://data.iana.org/rdap/dns.json'', Match (IdString ''example.com''),
         Request ''https://b.example/domain/example.com'',
         Request ''http://a.example/domain/example.com''])"
    using Client_query_Host_override
            [of ex_client ex_rt dns "IdString ''example.com''" "[]" "[]" "''example.com''"]
          nohost b doc matched candidates
    by simp
  show ?thesis
    using host over nohost req b boot doc matched run by simp
qed

text \<open>
  Against C5 as stated: with an empty \<^verbatim>\<open>Host\<close>, the same query against two bootstrap
  documents that differ in their version only, 1.0 from \<^verbatim>\<open>data.iana.org\<close> and 2.0 from
  the mirror. Whatever the supported constant, one of the two differs from it; on both the
  query goes from the fetch of the document to the matcher and on to the candidates, so
  the version check of the full resolution path has not run.
\<close>

theorem Client_query_bootstrap_counterexample:
  "Host ex_client = [] \<and> Host ex_client_mirror = []
   \<and> Version (snd (Decode_registry ex_rt ''registry 1.0'' empty_registry)) = ''1.0''
   \<and> Version (snd (Decode_registry ex_rt ''registry 2.0'' empty_registry)) = ''2.0''
   \<and> Client_query ex_rt ex_client dns (IdString ''example.com'') [] []
     = (Return None, ''{}'',
        [Request ''https://data.iana.org/rdap/dns.json'', Match (IdString ''example.com''),
         Request ''https://b.example/domain/example.com'',
         Request ''http://a.example/domain/example.com''])
   \<and> Client_query ex_rt ex_client_mirror dns (IdString ''example.com'') [] []
     = (Return None, ''{}'',
        [Request ''https://mirror.example/rdap/dns.json'', Match (IdString ''example.com''),
         Request ''https://b.example/domain/example.com'',
         Request ''http://a.example/domain/example.com''])"
  by (simp add: Client_query_def Client_fetchAndUnmarshal_def ex_client_defs query_match_def
      empty_registry_def query_candidates_def sort_Sort_short is_https_def kindToSegment_def
      fmt_v_def)

text \<open>
  C6. The segment is \<^verbatim>\<open>domain\<close> for \<^verbatim>\<open>dns\<close>, \<^verbatim>\<open>autnum\<close> for \<^verbatim>\<open>asn\<close> and \<^verbatim>\<open>ip\<close> for
  both \<^verbatim>\<open>ipv4\<close> and \<^verbatim>\<open>ipv6\<close>. The requests the candidate loop sends are, in order, those
  for \<^verbatim>\<open><candidate>/<segment>/<identifier>\<close> over the candidates of an initial stretch of
  the list, less the URLs no request can be built for; the query runs the loop on the
  sorted candidates with the segment of the kind. \<^verbatim>\<open>QueryIPNetwork\<close> queries with kind
  \<^verbatim>\<open>ipv6\<close> when \<^verbatim>\<open>To4\<close> of the address is \<^verbatim>\<open>nil\<close>, else \<^verbatim>\<open>ipv4\<close>; and the two
  kinds differ in the bootstrap URL only: where that is the same for both, or a
  \<^verbatim>\<open>Host\<close> is set, a query of kind \<^verbatim>\<open>ipv4\<close> and one of kind \<^verbatim>\<open>ipv6\<close> are the same.
\<close>

theorem Client_query_URL_shape:
  "kindToSegment dns = Some ''domain'' \<and> kindToSegment asn = Some ''autnum''
   \<and> kindToSegment ipv4 = Some ''ip'' \<and> kindToSegment ipv6 = Some ''ip''
   \<and> (\<exists>n\<le>length uris.
         snd (snd (query_loop rt c segment identifier uris object log))
           = log @ map Request
               (filter (\<lambda>u. NewRequest rt u = None)
                  (map (\<lambda>uri. uri @ ''/'' @ segment @ ''/'' @ fmt_v rt identifier)
                     (take n uris))))
   \<and> query_candidates rt c k identifier uris object log
       = (case query_loop rt c
                 (case k of dns \<Rightarrow> ''domain'' | asn \<Rightarrow> ''autnum'' | ipv4 \<Rightarrow> ''ip'' | ipv6 \<Rightarrow> ''ip'')
                 identifier (sort_Sort (sort_long rt) uris) object log of
            (err, object', log') \<Rightarrow> (Return err, object', log'))
   \<and> Client_QueryIPNetwork rt c ipnet log
       = query_result (Client_query rt c (if To4 (IP ipnet) = None then ipv6 else ipv4)
                         (IdIPNet ipnet) (New_object rt) log)
   \<and> (Sprintf_kind rt (Bootstrap c) ipv4 = Sprintf_kind rt (Bootstrap c) ipv6 \<or> Host c \<noteq> []
      \<longrightarrow> Client_query rt c ipv4 identifier object log
          = Client_query rt c ipv6 identifier object log)"
proof (intro conjI impI)
  show "kindToSegment dns = Some ''domain''" "kindToSegment asn = Some ''autnum''"
    "kindToSegment ipv4 = Some ''ip''" "kindToSegment ipv6 = Some ''ip''"
    by (simp_all add: kindToSegment_def)
  show "\<exists>n\<le>length uris.
         snd (snd (query_loop rt c segment identifier uris object log))
           = log @ map Request
               (filter (\<lambda>u. NewRequest rt u = None)
                  (map (\<lambda>uri. uri @ ''/'' @ segment @ ''/'' @ fmt_v rt identifier)
                     (take n uris)))"
    by (rule query_loop_log)
  show "query_candidates rt c k identifier uris object log
       = (case query_loop rt c
                 (case k of dns \<Rightarrow> ''domain'' | asn \<Rightarrow> ''autnum'' | ipv4 \<Rightarrow> ''ip'' | ipv6 \<Rightarrow> ''ip'')
                 identifier (sort_Sort (sort_long rt) uris) object log of
            (err, object', log') \<Rightarrow> (Return err, object', log'))"
    by (simp add: query_candidates_def kindToSegment_total)
  show "Client_QueryIPNetwork rt c ipnet log
       = query_result (Client_query rt c (if To4 (IP ipnet) = None then ipv6 else ipv4)
                         (IdIPNet ipnet) (New_object rt) log)"
    by (simp add: Client_QueryIPNetwork_def)
next
  assume "Sprintf_kind rt (Bootstrap c) ipv4 = Sprintf_kind rt (Bootstrap c) ipv6 \<or> Host c \<noteq> []"
  then show "Client_query rt c ipv4 identifier object log
          = Client_query rt c ipv6 identifier object log"
    by (auto simp add: Client_query_def query_match_ipv4_ipv6 query_candidates_ipv4_ipv6
        split: prod.splits option.splits go.splits sum.splits)
qed

text \<open>
  The theorem at the network 192.0.2.0/24 and at the AS number 64512, both asked of the
  host \<^verbatim>\<open>https://rdap.example\<close>: the requests are for \<^verbatim>\<open>/ip/192.0.2.0/24\<close> and for
  \<^verbatim>\<open>/autnum/64512\<close>.
\<close>

theorem Client_query_URL_shape_witness:
  "Host ex_client_host \<noteq> []
   \<and> To4 (IP ex_ipnet) = Some [192, 0, 2, 0]
   \<and> Client_query ex_rt ex_client_host ipv6 (IdIPNet ex_ipnet) [] []
     = (Return None, ''{}'', [Request ''https://rdap.example/ip/192.0.2.0/24''])
   \<and> Client_QueryIPNetwork ex_rt ex_client_host ex_ipnet []
     = (Return (Inr ''{}''), [Request ''https://rdap.example/ip/192.0.2.0/24''])
   \<and> Client_QueryASN ex_rt ex_client_host 64512 []
     = (Return (Inl (Errorf ''no data available for 64512'')),
        [Request ''https://rdap.example/autnum/64512''])"
proof -
  have host: "Host ex_client_host \<noteq> []"
    by (simp add: ex_client_defs)
  have to4: "To4 (IP ex_ipnet) = Some [192, 0, 2, 0]"
    by (simp add: To4_def ex_ipnet_def)
  have run4: "Client_query ex_rt ex_client_host ipv4 (IdIPNet ex_ipnet) [] []
     = (Return None, ''{}'', [Request ''https://rdap.example/ip/192.0.2.0/24''])"
    by (simp add: Client_query_def query_candidates_Host Client_fetchAndUnmarshal_def
        ex_client_defs fmt_v_def)
  have digits: "FormatUint 64512 = ''64512''"
    by (simp add: FormatUint.simps)
  have asn: "Client_QueryASN ex_rt ex_client_host 64512 []
     = (Return (Inl (Errorf ''no data available for 64512'')),
        [Request ''https://rdap.example/autnum/64512''])"
    by (simp add: Client_QueryASN_def query_result_def Client_query_def query_candidates_Host
        Client_fetchAndUnmarshal_def ex_client_defs fmt_v_def digits)
  have new: "New_object ex_rt = []"
    by (simp add: ex_rt_def)
  show ?thesis
    using Client_query_URL_shape
            [of "[]" ex_rt ex_client_host "[]" "IdIPNet ex_ipnet" "[]" "[]" ipv4 ex_ipnet]
          host to4 run4 asn new
    by (simp add: query_result_def)
qed

section \<open>The handler\<close>

lemmas ex_handler_defs =
  ex_world_def ex_handler_def ex_ParseIP_def ex_ParseCIDR_def ex_answer_def
  ex_answer_Domain_def ex_ToText_def

lemma Query_loop_Cons:
  "Query_loop (handler # handlers) object ok log
     = (if claims (handler object log) then handler object log
        else Query_loop handlers object False (snd (handler object log)))"
proof (cases "handler object log")
  case (Pair res log')
  then show ?thesis
    by (cases res) (auto simp add: claims_def split: option.splits)
qed

lemma Query_loop_next:
  "Query_loop (handler # g # handlers) object ok log
     = (if claims (handler object log) then handler object log
        else Query_loop (g # handlers) object False (snd (handler object log)))"
  by (rule Query_loop_Cons)

lemma Query_loop_single: "Query_loop [handler] object ok log = handler object log"
proof (cases "handler object log")
  case (Pair res log')
  then show ?thesis
    by (cases res) (auto split: option.splits)
qed

lemma not_claims_declined: "\<not> claims ((False, None), log)"
  by (simp add: claims_def)

lemma deriv_Repeat_numeral:
  "deriv c (Repeat (numeral j) r) = cat (deriv c r) (Repeat (pred_numeral j) r)"
  by (simp add: numeral_eq_Suc)

text \<open>A parsed AS number is claimed by the AS handler, and all it does is about that number.\<close>

lemma Handler_ASN_claims:
  assumes "ParseUint10 object 32 = Some n"
  shows "fst (fst (Handler_ASN w h object log))"
    and "\<exists>evs. snd (Handler_ASN w h object log) = log @ evs
               \<and> list_all (\<lambda>ev. event_target ev = TargetASN n) evs"
  using assms
  by (auto simp add: Handler_ASN_def bootstrap_uris_def split: option.splits sum.splits prod.splits)

lemma Handler_Domain_declines:
  "\<not> claims (Handler_Domain w h object log) \<Longrightarrow> Handler_Domain w h object log = ((False, None), log)"
  by (auto simp add: Handler_Domain_def bootstrap_uris_def claims_def
      split: if_splits option.splits sum.splits prod.splits)

text \<open>
  C9. \<^verbatim>\<open>Handler.Query\<close> runs the handlers in the order ASN, IP, IPNetwork, Domain,
  Entity, each on the log the one before left, and returns what the first handler that
  claims the object (returns \<^verbatim>\<open>true\<close> or an error) returns. So an object that parses as
  an unsigned 32-bit integer gets what the AS handler returns, which claims it; every
  event of the query is about that AS number, none about a domain.
\<close>

theorem Handler_Query_order:
  "Handler_Query w h object log
     = (if claims (Handler_ASN w h object log) then Handler_ASN w h object log
        else if claims (Handler_IP w h object (snd (Handler_ASN w h object log)))
        then Handler_IP w h object (snd (Handler_ASN w h object log))
        else if claims (Handler_IPNetwork w h object
                          (snd (Handler_IP w h object (snd (Handler_ASN w h object log)))))
        then Handler_IPNetwork w h object
               (snd (Handler_IP w h object (snd (Handler_ASN w h object log))))
        else if claims (Handler_Domain w h object
                          (snd (Handler_IPNetwork w h object
                             (snd (Handler_IP w h object (snd (Handler_ASN w h object log)))))))
        then Handler_Domain w h object
               (snd (Handler_IPNetwork w h object
                  (snd (Handler_IP w h object (snd (Handler_ASN w h object log))))))
        else Handler_Entity w h object
               (snd (Handler_Domain w h object
                  (snd (Handler_IPNetwork w h object
                     (snd (Handler_IP w h object (snd (Handler_ASN w h object log)))))))))
   \<and> (ParseUint10 object 32 = Some n
      \<longrightarrow> Handler_Query w h object log = Handler_ASN w h object log
        \<and> fst (fst (Handler_Query w h object log))
        \<and> (\<exists>evs. snd (Handler_Query w h object log) = log @ evs
                  \<and> list_all (\<lambda>ev. event_target ev = TargetASN n) evs))"
proof (intro conjI impI)
  let ?l1 = "snd (Handler_ASN w h object log)"
  let ?l2 = "snd (Handler_IP w h object ?l1)"
  let ?l3 = "snd (Handler_IPNetwork w h object ?l2)"
  let ?l4 = "snd (Handler_Domain w h object ?l3)"
  show order: "Handler_Query w h object log
     = (if claims (Handler_ASN w h object log) then Handler_ASN w h object log
        else if claims (Handler_IP w h object ?l1) then Handler_IP w h object ?l1
        else if claims (Handler_IPNetwork w h object ?l2) then Handler_IPNetwork w h object ?l2
        else if claims (Handler_Domain w h object ?l3) then Handler_Domain w h object ?l3
        else Handler_Entity w h object ?l4)"
    unfolding Handler_Query_def
    by (simp only: Query_loop_next Query_loop_single)
  assume asn: "ParseUint10 object 32 = Some n"
  have c: "claims (Handler_ASN w h object log)"
    using Handler_ASN_claims(1) [OF asn, of w h log] by (simp add: claims_def)
  show q: "Handler_Query w h object log = Handler_ASN w h object log"
    using c by (simp only: order if_True)
  show "fst (fst (Handler_Query w h object log))"
    using Handler_ASN_claims(1) [OF asn, of w h log] by (simp only: q)
  show "\<exists>evs. snd (Handler_Query w h object log) = log @ evs
               \<and> list_all (\<lambda>ev. event_target ev = TargetASN n) evs"
    using Handler_ASN_claims(2) [OF asn, of w h log] by (simp only: q)
qed

text \<open>
  The theorem at the object \<^verbatim>\<open>64512\<close>, which is a hostname by \<^verbatim>\<open>isFQDN\<close> as well: it
  is asked as an AS number.
\<close>

theorem Handler_Query_order_witness:
  "ParseUint10 ''64512'' 32 = Some 64512
   \<and> MatchString isFQDN ''64512''
   \<and> Handler_Query ex_world ex_handler ''64512'' []
     = ((True, None),
        [ClientQuery [''https://rdap.example''] (TargetASN 64512), ToText (TargetASN 64512)])"
proof -
  have asn: "ParseUint10 ''64512'' 32 = Some 64512"
    by (simp add: ParseUint10_def isdigit_def)
  have fqdn: "MatchString isFQDN ''64512''"
    by (simp add: MatchString_def isFQDN_def label_def isalnum_def deriv_Repeat_numeral)
  have run: "Handler_ASN ex_world ex_handler ''64512'' []
     = ((True, None),
        [ClientQuery [''https://rdap.example''] (TargetASN 64512), ToText (TargetASN 64512)])"
    by (simp add: Handler_ASN_def asn bootstrap_uris_def ex_handler_defs)
  show ?thesis
    using Handler_Query_order [of ex_world ex_handler "''64512''" "[]" 64512] asn fqdn run
    by (simp add: claims_def)
qed

text \<open>
  C7, as amended. The claim: a string that fails IP-address or CIDR parsing never reaches
  the matcher as an IP query, and no network call is made for it before it is rejected as
  a local error. What holds: on a string that \<^verbatim>\<open>net.ParseIP\<close> rejects \<^verbatim>\<open>Handler.IP\<close>
  returns \<^verbatim>\<open>(false, nil)\<close> having done nothing, no bootstrap lookup and no query, and so
  does \<^verbatim>\<open>Handler.IPNetwork\<close> on a string that \<^verbatim>\<open>net.ParseCIDR\<close> rejects; that is no
  error, and \<^verbatim>\<open>Handler.Query\<close> goes on: a string that is no AS number, address or network
  is asked as a domain if the domain handler claims it, and as an entity otherwise.
\<close>

theorem Handler_IP_declines:
  "(ParseIP w object = None \<longrightarrow> Handler_IP w h object log = ((False, None), log))
   \<and> (ParseCIDR w object = None \<longrightarrow> Handler_IPNetwork w h object log = ((False, None), log))
   \<and> (ParseUint10 object 32 = None \<longrightarrow> ParseIP w object = None \<longrightarrow> ParseCIDR w object = None
      \<longrightarrow> Handler_Query w h object log
          = (if claims (Handler_Domain w h object log) then Handler_Domain w h object log
             else Handler_Entity w h object log))"
proof (intro conjI impI)
  show ip: "Handler_IP w h object log = ((False, None), log)" if "ParseIP w object = None"
    using that by (simp add: Handler_IP_def)
  show net: "Handler_IPNetwork w h object log = ((False, None), log)" if "ParseCIDR w object = None"
    using that by (simp add: Handler_IPNetwork_def)
  assume none: "ParseUint10 object 32 = None" "ParseIP w object = None" "ParseCIDR w object = None"
  have asn: "Handler_ASN w h object log = ((False, None), log)"
    using none(1) by (simp add: Handler_ASN_def)
  have start: "Handler_Query w h object log
          = (if claims (Handler_Domain w h object log) then Handler_Domain w h object log
             else Handler_Entity w h object (snd (Handler_Domain w h object log)))"
    by (simp only: Handler_Query_def Query_loop_next Query_loop_single asn ip [OF none(2)]
        net [OF none(3)] snd_conv not_claims_declined if_False)
  show "Handler_Query w h object log
          = (if claims (Handler_Domain w h object log) then Handler_Domain w h object log
             else Handler_Entity w h object log)"
  proof (cases "claims (Handler_Domain w h object log)")
    case True
    then show ?thesis by (simp only: start if_True)
  next
    case False
    then show ?thesis
      using Handler_Domain_declines [OF False] by (simp only: start if_False snd_conv)
  qed
qed

text \<open>
  The theorem at \<^verbatim>\<open>not an address\<close>, which no handler before the last claims: it is
  asked as an entity.
\<close>

theorem Handler_IP_declines_witness:
  "ParseUint10 ''not an address'' 32 = None
   \<and> ParseIP ex_world ''not an address'' = None
   \<and> ParseCIDR ex_world ''not an address'' = None
   \<and> Handler_IP ex_world ex_handler ''not an address'' [] = ((False, None), [])
   \<and> Handler_IPNetwork ex_world ex_handler ''not an address'' [] = ((False, None), [])
   \<and> Handler_Query ex_world ex_handler ''not an address'' []
     = ((True, None),
        [ClientQuery [''https://rdap.example''] (TargetEntity ''not an address''),
         ToText (TargetEntity ''not an address'')])"
proof -
  have asn: "ParseUint10 ''not an address'' 32 = None"
    by (simp add: ParseUint10_def isdigit_def)
  have ip: "ParseIP ex_world ''not an address'' = None"
    by (simp add: ex_handler_defs)
  have net: "ParseCIDR ex_world ''not an address'' = None"
    by (simp add: ex_handler_defs)
  have fqdn: "\<not> MatchString isFQDN ''not an address''"
    by (simp add: MatchString_def isFQDN_def label_def isalnum_def deriv_Repeat_numeral)
  have domain: "Handler_Domain ex_world ex_handler ''not an address'' [] = ((False, None), [])"
    using fqdn by (simp add: Handler_Domain_def)
  have entity: "Handler_Entity ex_world ex_handler ''not an address'' []
     = ((True, None),
        [ClientQuery [''https://rdap.example''] (TargetEntity ''not an address''),
         ToText (TargetEntity ''not an address'')])"
    by (simp add: Handler_Entity_def ex_handler_defs)
  show ?thesis
    using Handler_IP_declines [of ex_world "''not an address''" ex_handler "[]"]
          asn ip net domain entity
    by (simp add: claims_def)
qed

text \<open>
  Against C7 as stated: \<^verbatim>\<open>example.com\<close> fails both parsings, and neither IP handler
  returns an error for it; the query is not rejected but answered, through a network
  query made for the string as a domain.
\<close>

theorem Handler_IP_counterexample:
  "ParseIP ex_world ''example.com'' = None
   \<and> ParseCIDR ex_world ''example.com'' = None
   \<and> Handler_IP ex_world ex_handler ''example.com'' [] = ((False, None), [])
   \<and> Handler_IPNetwork ex_world ex_handler ''example.com'' [] = ((False, None), [])
   \<and> Handler_Query ex_world ex_handler ''example.com'' []
     = ((True, None),
        [ClientQuery [''https://rdap.example''] (TargetDomain ''example.com''),
         ToText (TargetDomain ''example.com'')])"
proof -
  have asn: "Handler_ASN ex_world ex_handler ''example.com'' [] = ((False, None), [])"
    by (simp add: Handler_ASN_def ParseUint10_def isdigit_def)
  have ip: "Handler_IP ex_world ex_handler ''example.com'' [] = ((False, None), [])"
    by (simp add: Handler_IP_def ex_handler_defs)
  have net: "Handler_IPNetwork ex_world ex_handler ''example.com'' [] = ((False, None), [])"
    by (simp add: Handler_IPNetwork_def ex_handler_defs)
  have fqdn: "MatchString isFQDN ''example.com''"
    by (simp add: MatchString_def isFQDN_def label_def isalnum_def deriv_Repeat_numeral)
  have domain: "Handler_Domain ex_world ex_handler ''example.com'' []
     = ((True, None),
        [ClientQuery [''https://rdap.example''] (TargetDomain ''example.com''),
         ToText (TargetDomain ''example.com'')])"
    using fqdn by (simp add: Handler_Domain_def bootstrap_uris_def ex_handler_defs)
  show ?thesis
    by (simp only: Handler_Query_def Query_loop_next Query_loop_single asn ip net domain snd_conv
        not_claims_declined if_False)
       (simp add: claims_def ex_handler_defs)
qed

end
